theory Spec2Isabelle
  imports Main "HOL-Library.AList" "HOL-Library.Char_ord" "HOL-Library.List_Lexorder"
begin

section \<open>Python values and errors\<close>

text \<open>
  The services of \<^verbatim>\<open>domains/chama\<close> traverse documents loaded by \<^verbatim>\<open>json.load\<close>.
  An exception of the source is a value of \<open>py_error\<close>; a function that can raise
  returns \<open>py_error + 'a\<close>, with \<open>Inl\<close> for the exception.
\<close>

datatype py_error = KeyError | TypeError | AttributeError

definition bind :: "py_error + 'a \<Rightarrow> ('a \<Rightarrow> py_error + 'b) \<Rightarrow> py_error + 'b" where
  "bind m f = (case m of Inl e \<Rightarrow> Inl e | Inr x \<Rightarrow> f x)"

text \<open>
  A member of a JSON object that, when present, holds \<^verbatim>\<open>null\<close> or a string.
  A Python value that is \<^verbatim>\<open>None\<close> or a \<^verbatim>\<open>str\<close> is a \<open>string option\<close>.
  A character is a Unicode code point below 256.
\<close>

datatype member = Missing | Null | Str string

text \<open>\<^verbatim>\<open>d.get(key, default)\<close> with a string default.\<close>

fun get :: "member \<Rightarrow> string \<Rightarrow> string option" where
  "get Missing dflt = Some dflt"
| "get Null dflt = None"
| "get (Str s) dflt = Some s"

text \<open>\<^verbatim>\<open>d[key]\<close>\<close>

fun subscript :: "member \<Rightarrow> py_error + string option" where
  "subscript Missing = Inl KeyError"
| "subscript Null = Inr None"
| "subscript (Str s) = Inr (Some s)"

text \<open>\<^verbatim>\<open>d.get(key, [])\<close> for a member that, when present, holds a list.\<close>

fun get_list :: "'a list option \<Rightarrow> 'a list" where
  "get_list None = []"
| "get_list (Some xs) = xs"

text \<open>Truth value of \<^verbatim>\<open>None\<close> or a \<^verbatim>\<open>str\<close>.\<close>

fun truthy :: "string option \<Rightarrow> bool" where
  "truthy None = False"
| "truthy (Some s) = (s \<noteq> [])"

section \<open>Name normalisation\<close>

text \<open>\<^verbatim>\<open>str.lower\<close> and \<^verbatim>\<open>str.strip\<close> on code points below 256.\<close>

definition lower_char :: "char \<Rightarrow> char" where
  "lower_char c =
     (let n = (of_char c :: nat)
      in if (65 \<le> n \<and> n \<le> 90) \<or> (192 \<le> n \<and> n \<le> 222 \<and> n \<noteq> 215)
         then char_of (n + 32) else c)"

definition lower :: "string \<Rightarrow> string" where
  "lower s = map lower_char s"

definition isspace :: "char \<Rightarrow> bool" where
  "isspace c =
     (let n = (of_char c :: nat)
      in (9 \<le> n \<and> n \<le> 13) \<or> (28 \<le> n \<and> n \<le> 32) \<or> n = 133 \<or> n = 160)"

definition strip :: "string \<Rightarrow> string" where
  "strip s = rev (dropWhile isspace (rev (dropWhile isspace s)))"

text \<open>
  \<^verbatim>\<open>ChamaS3ComparatorService.normalize_column_name\<close>:
  \<^verbatim>\<open>return col_name.lower().strip()\<close>; \<^verbatim>\<open>None\<close> has no attribute \<^verbatim>\<open>lower\<close>.
\<close>

fun s3_normalize_column_name :: "string option \<Rightarrow> py_error + string" where
  "s3_normalize_column_name None = Inl AttributeError"
| "s3_normalize_column_name (Some col_name) = Inr (strip (lower col_name))"

text \<open>
  \<^verbatim>\<open>ChamaETLSystemComparatorService.normalize_column_name\<close>:
  \<^verbatim>\<open>return col_name.lower().strip() if col_name else ''\<close>
\<close>

definition sys_normalize_column_name :: "string option \<Rightarrow> py_error + string" where
  "sys_normalize_column_name col_name =
     (if truthy col_name
      then (case col_name of None \<Rightarrow> Inl AttributeError | Some s \<Rightarrow> Inr (strip (lower s)))
      else Inr [])"

text \<open>\<^verbatim>\<open>ChamaFromSystemService._normalize_name\<close>: \<^verbatim>\<open>return name.lower().strip()\<close>\<close>

fun from_system_normalize_name :: "string option \<Rightarrow> py_error + string" where
  "from_system_normalize_name None = Inl AttributeError"
| "from_system_normalize_name (Some name) = Inr (strip (lower name))"

text \<open>\<^verbatim>\<open>ChamaConsolidatedMetadataService._normalize_name\<close>: \<^verbatim>\<open>return name.lower().strip()\<close>\<close>

fun consolidated_normalize_name :: "string option \<Rightarrow> py_error + string" where
  "consolidated_normalize_name None = Inl AttributeError"
| "consolidated_normalize_name (Some name) = Inr (strip (lower name))"

section \<open>Documents\<close>

text \<open>
  The ETL document and the S3 document have the same structure:
  \<^verbatim>\<open>files[]\<close> with \<^verbatim>\<open>mappings[]\<close> with \<^verbatim>\<open>fields[]\<close>. A list member is \<open>None\<close>
  when the key is absent, which \<^verbatim>\<open>d.get(key, [])\<close> reads as the empty list. The
  records hold the members the services read; a name is absent, \<^verbatim>\<open>null\<close> or a string,
  a list member is absent or a list of objects. Documents with members of other JSON
  types are not covered.
\<close>

record etl_field =
  from_santander :: member
  laborit :: member
  field_type :: member

record etl_mapping =
  map_name :: member
  table :: member
  mfields :: "etl_field list option"

record etl_file =
  name :: member
  mappings :: "etl_mapping list option"

record metadata =
  generated_at :: member
  files :: "etl_file list option"

text \<open>
  \<^verbatim>\<open>bool(file_data)\<close> where \<open>file_data\<close> is \<^verbatim>\<open>None\<close>, the empty dict or a file
  object: \<open>None\<close> stands for \<^verbatim>\<open>None\<close> and for the default \<^verbatim>\<open>{}\<close> of \<^verbatim>\<open>dict.get\<close>;
  a dict is true when it has a key.
\<close>

fun file_bool :: "etl_file option \<Rightarrow> bool" where
  "file_bool None = False"
| "file_bool (Some file_data) = (name file_data \<noteq> Missing \<or> mappings file_data \<noteq> None)"

section \<open>ETL versus S3: \<^verbatim>\<open>ChamaS3ComparatorService\<close>\<close>

record field_info =
  fi_from_santander :: "string option"
  fi_laborit :: "string option"
  fi_type :: "string option"

record both_entry =
  be_from_santander :: "string option"
  be_s3_laborit :: "string option"
  be_s3_type :: "string option"
  be_etl_laborit :: "string option"
  be_etl_type :: "string option"

record only_entry =
  oe_from_santander :: "string option"
  oe_laborit :: "string option"
  oe_type :: "string option"

record comparison_item =
  ci_file_name :: "string option"
  ci_has_s3_file :: bool
  ci_has_etl_file :: bool
  ci_s3_mappings_count :: nat
  ci_etl_mappings_count :: nat
  ci_s3_fields_count :: nat
  ci_etl_fields_count :: nat
  ci_fields_in_both_count :: nat
  ci_fields_only_in_s3_count :: nat
  ci_fields_only_in_etl_count :: nat
  ci_fields_in_both :: "both_entry list"
  ci_fields_only_in_s3 :: "only_entry list"
  ci_fields_only_in_etl :: "only_entry list"

record without_s3_entry =
  ws_file_name :: "string option"
  ws_mappings_count :: nat
  ws_fields_count :: nat

record comparison =
  cmp_generated_at :: string
  cmp_s3_total_files :: nat
  cmp_s3_generated_at :: "string option"
  cmp_etl_total_files :: nat
  cmp_etl_generated_at :: "string option"
  comparisons :: "comparison_item list"
  etl_files_without_s3 :: "without_s3_entry list"
  etl_files_without_s3_count :: nat

text \<open>
  A Python dict is an association list in insertion order; \<open>AList.update\<close> replaces
  the value of a key that is present, in place, and appends a new key at the end.

  Lines 86-95 and 100-109, the inner loop over the fields of one mapping:
  a field is stored under its normalised \<^verbatim>\<open>from_santander\<close> when that value is true.
\<close>

type_synonym fields_map = "(string \<times> field_info) list"

fun collect_fields :: "etl_field list \<Rightarrow> fields_map \<Rightarrow> py_error + fields_map" where
  "collect_fields [] fields_map = Inr fields_map"
| "collect_fields (field # rest) fields_map =
     (if truthy (get (from_santander field) '''')
      then bind (s3_normalize_column_name (get (from_santander field) ''''))
        (\<lambda>normalized. collect_fields rest
           (AList.update normalized
              \<lparr>fi_from_santander = get (from_santander field) '''',
               fi_laborit = get (laborit field) '''',
               fi_type = get (field_type field) ''''\<rparr> fields_map))
      else collect_fields rest fields_map)"

fun collect_mappings :: "etl_mapping list \<Rightarrow> fields_map \<Rightarrow> py_error + fields_map" where
  "collect_mappings [] fields_map = Inr fields_map"
| "collect_mappings (mapping # rest) fields_map =
     bind (collect_fields (get_list (mfields mapping)) fields_map) (collect_mappings rest)"

text \<open>Lines 84-95 (and 98-109): all fields from all mappings of one file.\<close>

fun collect_file_fields :: "etl_file option \<Rightarrow> py_error + fields_map" where
  "collect_file_fields None = Inr []"
| "collect_file_fields (Some file_data) =
     (if file_bool (Some file_data)
      then collect_mappings (get_list (mappings file_data)) []
      else Inr [])"

text \<open>Lines 112-139: the three lists.\<close>

definition fields_in_both :: "fields_map \<Rightarrow> fields_map \<Rightarrow> both_entry list" where
  "fields_in_both s3_fields_map etl_fields_map =
     List.map_filter (\<lambda>(s3_norm, s3_field).
        case map_of etl_fields_map s3_norm of
          Some etl_field \<Rightarrow>
            Some \<lparr>be_from_santander = fi_from_santander s3_field,
                  be_s3_laborit = fi_laborit s3_field,
                  be_s3_type = fi_type s3_field,
                  be_etl_laborit = fi_laborit etl_field,
                  be_etl_type = fi_type etl_field\<rparr>
        | None \<Rightarrow> None) s3_fields_map"

definition only_entry_of :: "field_info \<Rightarrow> only_entry" where
  "only_entry_of f =
     \<lparr>oe_from_santander = fi_from_santander f, oe_laborit = fi_laborit f, oe_type = fi_type f\<rparr>"

definition fields_only_in_s3 :: "fields_map \<Rightarrow> fields_map \<Rightarrow> only_entry list" where
  "fields_only_in_s3 s3_fields_map etl_fields_map =
     map (\<lambda>(s3_norm, s3_field). only_entry_of s3_field)
       (filter (\<lambda>(s3_norm, s3_field). map_of etl_fields_map s3_norm = None) s3_fields_map)"

definition fields_only_in_etl :: "fields_map \<Rightarrow> fields_map \<Rightarrow> only_entry list" where
  "fields_only_in_etl s3_fields_map etl_fields_map =
     map (\<lambda>(etl_norm, etl_field). only_entry_of etl_field)
       (filter (\<lambda>(etl_norm, etl_field). map_of s3_fields_map etl_norm = None) etl_fields_map)"

definition mappings_count :: "etl_file option \<Rightarrow> nat" where
  "mappings_count file_data =
     (case file_data of
        None \<Rightarrow> 0
      | Some f \<Rightarrow> if file_bool file_data then length (get_list (mappings f)) else 0)"

text \<open>Lines 80-159: the body of the loop over the file names.\<close>

definition compare_file ::
  "string option \<Rightarrow> etl_file option \<Rightarrow> etl_file option \<Rightarrow> py_error + comparison_item" where
  "compare_file file_name s3_file_data etl_file_data =
     bind (collect_file_fields s3_file_data) (\<lambda>s3_fields_map.
     bind (collect_file_fields etl_file_data) (\<lambda>etl_fields_map.
       Inr \<lparr>ci_file_name = file_name,
            ci_has_s3_file = file_bool s3_file_data,
            ci_has_etl_file = file_bool etl_file_data,
            ci_s3_mappings_count = mappings_count s3_file_data,
            ci_etl_mappings_count = mappings_count etl_file_data,
            ci_s3_fields_count = length s3_fields_map,
            ci_etl_fields_count = length etl_fields_map,
            ci_fields_in_both_count = length (fields_in_both s3_fields_map etl_fields_map),
            ci_fields_only_in_s3_count = length (fields_only_in_s3 s3_fields_map etl_fields_map),
            ci_fields_only_in_etl_count = length (fields_only_in_etl s3_fields_map etl_fields_map),
            ci_fields_in_both = fields_in_both s3_fields_map etl_fields_map,
            ci_fields_only_in_s3 = fields_only_in_s3 s3_fields_map etl_fields_map,
            ci_fields_only_in_etl = fields_only_in_etl s3_fields_map etl_fields_map\<rparr>))"

type_synonym files_map = "(string option \<times> etl_file) list"

text \<open>Lines 73-74: \<^verbatim>\<open>{file_data['name']: file_data for file_data in files_list}\<close>\<close>

fun files_by_name :: "etl_file list \<Rightarrow> files_map \<Rightarrow> py_error + files_map" where
  "files_by_name [] files_map = Inr files_map"
| "files_by_name (file_data # rest) files_map =
     bind (subscript (name file_data))
       (\<lambda>key. files_by_name rest (AList.update key file_data files_map))"

text \<open>
  \<^verbatim>\<open>sorted\<close> on a set of keys, each \<^verbatim>\<open>None\<close> or a \<^verbatim>\<open>str\<close>: strings are ordered by
  code points; \<^verbatim>\<open>None\<close> cannot be compared, so it sorts only when it is alone.
\<close>

definition py_sorted :: "string option list \<Rightarrow> py_error + string option list" where
  "py_sorted keys =
     (if None \<in> set keys
      then (if 2 \<le> length keys then Inl TypeError else Inr keys)
      else Inr (map Some (sort (List.map_filter id keys))))"

fun compare_files ::
  "string option list \<Rightarrow> files_map \<Rightarrow> files_map \<Rightarrow> py_error + comparison_item list" where
  "compare_files [] s3_files_map etl_files_map = Inr []"
| "compare_files (file_name # rest) s3_files_map etl_files_map =
     bind (compare_file file_name (map_of s3_files_map file_name) (map_of etl_files_map file_name))
       (\<lambda>comparison_item.
          bind (compare_files rest s3_files_map etl_files_map)
            (\<lambda>items. Inr (comparison_item # items)))"

text \<open>Lines 167-175.\<close>

definition etl_without_s3 :: "files_map \<Rightarrow> files_map \<Rightarrow> without_s3_entry list" where
  "etl_without_s3 s3_files_map etl_files_map =
     map (\<lambda>(file_name, etl_file_data).
            \<lparr>ws_file_name = file_name,
             ws_mappings_count = length (get_list (mappings etl_file_data)),
             ws_fields_count =
               sum_list (map (\<lambda>m. length (get_list (mfields m))) (get_list (mappings etl_file_data)))\<rparr>)
       (filter (\<lambda>(file_name, etl_file_data). map_of s3_files_map file_name = None) etl_files_map)"

text \<open>
  \<^verbatim>\<open>compare_metadatas(s3_metadata, etl_metadata)\<close>, lines 49-183; \<open>now\<close> is
  \<^verbatim>\<open>datetime.now().isoformat()\<close>.
\<close>

definition s3_compare_metadatas :: "string \<Rightarrow> metadata \<Rightarrow> metadata \<Rightarrow> py_error + comparison" where
  "s3_compare_metadatas now s3_metadata etl_metadata =
     bind (files_by_name (get_list (files s3_metadata)) []) (\<lambda>s3_files_map.
     bind (files_by_name (get_list (files etl_metadata)) []) (\<lambda>etl_files_map.
     bind (py_sorted (remdups (map fst s3_files_map @ map fst etl_files_map))) (\<lambda>all_file_names.
     bind (compare_files all_file_names s3_files_map etl_files_map) (\<lambda>items.
       Inr \<lparr>cmp_generated_at = now,
            cmp_s3_total_files = length (get_list (files s3_metadata)),
            cmp_s3_generated_at = get (generated_at s3_metadata) '''',
            cmp_etl_total_files = length (get_list (files etl_metadata)),
            cmp_etl_generated_at = get (generated_at etl_metadata) '''',
            comparisons = items,
            etl_files_without_s3 = etl_without_s3 s3_files_map etl_files_map,
            etl_files_without_s3_count = length (etl_without_s3 s3_files_map etl_files_map)\<rparr>))))"

section \<open>System usage: \<^verbatim>\<open>ChamaFromSystemService\<close>\<close>

text \<open>
  An item of \<^verbatim>\<open>chama_system.json\<close>. The value of \<^verbatim>\<open>colunas_nao_utilizadas\<close> is a
  dict \<^verbatim>\<open>{portuguese_name: english_name}\<close> (its items in order), a list of names, or
  something else (\<^verbatim>\<open>null\<close>, a number); a name is \<^verbatim>\<open>null\<close> or a string.
\<close>

datatype unused_columns =
    ColsMissing
  | ColsDict "(string \<times> string option) list"
  | ColsList "string option list"
  | ColsOther

record system_item =
  tabela :: member
  colunas_nao_utilizadas :: unused_columns

text \<open>The empty dict \<^verbatim>\<open>{}\<close> as a system item, and \<^verbatim>\<open>bool(system_data)\<close>.\<close>

definition empty_item :: system_item where
  "empty_item = \<lparr>tabela = Missing, colunas_nao_utilizadas = ColsMissing\<rparr>"

definition item_bool :: "system_item \<Rightarrow> bool" where
  "item_bool system_data =
     (tabela system_data \<noteq> Missing \<or> colunas_nao_utilizadas system_data \<noteq> ColsMissing)"

type_synonym system_map = "(string option \<times> system_item) list"

text \<open>
  \<^verbatim>\<open>_load_system_metadata\<close>, lines 38-50; the argument is the content of the file at
  \<^verbatim>\<open>system_metadata_path\<close>, \<open>None\<close> when the path does not exist.
\<close>

fun system_map_of :: "system_item list \<Rightarrow> system_map \<Rightarrow> system_map" where
  "system_map_of [] system_map = system_map"
| "system_map_of (item # rest) system_map =
     (if truthy (get (tabela item) '''')
      then system_map_of rest (AList.update (get (tabela item) '''') item system_map)
      else system_map_of rest system_map)"

definition load_system_metadata :: "system_item list option \<Rightarrow> system_map" where
  "load_system_metadata system_file = system_map_of (get_list system_file) []"

record unused_info =
  portuguese_name :: string
  english_name :: "string option"

type_synonym unused_result = "string set \<times> (string \<times> unused_info) list"

text \<open>\<^verbatim>\<open>_get_unused_columns\<close>, lines 68-75: the dict format.\<close>

fun unused_from_dict :: "(string \<times> string option) list \<Rightarrow> unused_result \<Rightarrow> py_error + unused_result" where
  "unused_from_dict [] acc = Inr acc"
| "unused_from_dict ((pt_name, en_name) # rest) (unused_columns_set, unused_columns_mapping) =
     (if en_name \<noteq> None
      then bind (from_system_normalize_name en_name)
        (\<lambda>normalized. unused_from_dict rest
           (insert normalized unused_columns_set,
            AList.update normalized \<lparr>portuguese_name = pt_name, english_name = en_name\<rparr>
              unused_columns_mapping))
      else unused_from_dict rest (unused_columns_set, unused_columns_mapping))"

text \<open>Lines 78-80: the list format.\<close>

fun unused_from_list :: "string option list \<Rightarrow> unused_result \<Rightarrow> py_error + unused_result" where
  "unused_from_list [] acc = Inr acc"
| "unused_from_list (en_name # rest) (unused_columns_set, unused_columns_mapping) =
     (if en_name \<noteq> None
      then bind (from_system_normalize_name en_name)
        (\<lambda>normalized. unused_from_list rest
           (insert normalized unused_columns_set, unused_columns_mapping))
      else unused_from_list rest (unused_columns_set, unused_columns_mapping))"

text \<open>\<^verbatim>\<open>_get_unused_columns(system_data)\<close>, lines 52-82.\<close>

definition get_unused_columns :: "system_item \<Rightarrow> py_error + unused_result" where
  "get_unused_columns system_data =
     (case colunas_nao_utilizadas system_data of
        ColsMissing \<Rightarrow> unused_from_dict [] ({}, [])
      | ColsDict unused_columns_dict \<Rightarrow> unused_from_dict unused_columns_dict ({}, [])
      | ColsList unused_columns_list \<Rightarrow> unused_from_list unused_columns_list ({}, [])
      | ColsOther \<Rightarrow> Inr ({}, []))"

section \<open>ETL versus System: \<^verbatim>\<open>ChamaETLSystemComparatorService\<close>\<close>

record field_with_usage =
  fu_from_santander :: "string option"
  fu_laborit :: "string option"
  fu_type :: "string option"
  fu_is_used_in_system :: bool

record usage_statistics =
  st_total_fields :: nat
  st_used_count :: nat
  st_unused_count :: nat

record mapping_comparison =
  mc_map :: "string option"
  mc_table :: "string option"
  mc_has_system_data :: bool
  mc_fields :: "field_with_usage list"
  mc_statistics :: usage_statistics
  mc_system_unused_columns_count :: nat

record file_comparison =
  fc_file_name :: "string option"
  fc_mappings :: "mapping_comparison list"

record without_system_entry =
  wy_file_name :: "string option"
  wy_map :: "string option"
  wy_table :: "string option"
  wy_fields_count :: nat

record system_comparison =
  sc_generated_at :: string
  sc_etl_total_files :: nat
  sc_etl_generated_at :: "string option"
  sc_system_total_tables :: nat
  sc_files :: "file_comparison list"
  etl_without_system :: "without_system_entry list"
  etl_without_system_count :: nat

text \<open>
  Lines 104-129, the loop over the fields of a mapping; the accumulator is
  \<open>(fields_with_usage, used_count, unused_count)\<close>.
\<close>

fun fields_usage ::
  "etl_field list \<Rightarrow> string set \<Rightarrow> field_with_usage list \<times> nat \<times> nat
     \<Rightarrow> py_error + (field_with_usage list \<times> nat \<times> nat)" where
  "fields_usage [] unused_columns_set acc = Inr acc"
| "fields_usage (field # rest) unused_columns_set (fields_with_usage, used_count, unused_count) =
     bind (sys_normalize_column_name (get (laborit field) ''''))
       (\<lambda>normalized_laborit.
          let is_unused = normalized_laborit \<in> unused_columns_set;
              is_used = \<not> is_unused;
              field_with_usage =
                \<lparr>fu_from_santander = get (from_santander field) '''',
                 fu_laborit = get (laborit field) '''',
                 fu_type = get (field_type field) '''',
                 fu_is_used_in_system = is_used\<rparr>
          in fields_usage rest unused_columns_set
               (fields_with_usage @ [field_with_usage],
                if is_used then used_count + 1 else used_count,
                if is_used then unused_count else unused_count + 1))"

text \<open>\<^verbatim>\<open>system_map.get(table_name, {})\<close>\<close>

definition system_data_for :: "system_map \<Rightarrow> string option \<Rightarrow> system_item" where
  "system_data_for system_map table_name =
     (case map_of system_map table_name of None \<Rightarrow> empty_item | Some item \<Rightarrow> item)"

text \<open>Lines 93-142: the body of the loop over the mappings of a file.\<close>

definition compare_mapping :: "system_map \<Rightarrow> etl_mapping \<Rightarrow> py_error + mapping_comparison" where
  "compare_mapping system_map mapping =
     bind (get_unused_columns (system_data_for system_map (get (table mapping) '''')))
       (\<lambda>(unused_columns_set, unused_columns_mapping).
     bind (fields_usage (get_list (mfields mapping)) unused_columns_set ([], 0, 0))
       (\<lambda>(fields_with_usage, used_count, unused_count).
          Inr \<lparr>mc_map = get (map_name mapping) '''',
               mc_table = get (table mapping) '''',
               mc_has_system_data =
                 item_bool (system_data_for system_map (get (table mapping) '''')),
               mc_fields = fields_with_usage,
               mc_statistics =
                 \<lparr>st_total_fields = length fields_with_usage,
                  st_used_count = used_count,
                  st_unused_count = unused_count\<rparr>,
               mc_system_unused_columns_count = card unused_columns_set\<rparr>))"

fun compare_mappings :: "system_map \<Rightarrow> etl_mapping list \<Rightarrow> py_error + mapping_comparison list" where
  "compare_mappings system_map [] = Inr []"
| "compare_mappings system_map (mapping # rest) =
     bind (compare_mapping system_map mapping)
       (\<lambda>mapping_comparison.
          bind (compare_mappings system_map rest)
            (\<lambda>others. Inr (mapping_comparison # others)))"

text \<open>Lines 82-149: the loop over the files.\<close>

fun compare_etl_files :: "system_map \<Rightarrow> etl_file list \<Rightarrow> py_error + file_comparison list" where
  "compare_etl_files system_map [] = Inr []"
| "compare_etl_files system_map (etl_file # rest) =
     bind (compare_mappings system_map (get_list (mappings etl_file)))
       (\<lambda>mapping_comparisons.
          bind (compare_etl_files system_map rest)
            (\<lambda>others.
               Inr (\<lparr>fc_file_name = get (name etl_file) '''',
                     fc_mappings = mapping_comparisons\<rparr> # others)))"

text \<open>Lines 152-162.\<close>

definition without_system :: "system_map \<Rightarrow> etl_file list \<Rightarrow> without_system_entry list" where
  "without_system system_map etl_files_list =
     concat (map (\<lambda>etl_file.
       map (\<lambda>mapping.
              \<lparr>wy_file_name = get (name etl_file) '''',
               wy_map = get (map_name mapping) '''',
               wy_table = get (table mapping) '''',
               wy_fields_count = length (get_list (mfields mapping))\<rparr>)
         (filter (\<lambda>mapping. map_of system_map (get (table mapping) '''') = None)
            (get_list (mappings etl_file)))) etl_files_list)"

text \<open>
  \<^verbatim>\<open>compare_metadatas(etl_metadata, system_metadata)\<close>, lines 57-170. The argument
  \<open>system_metadata\<close> is \<open>Some\<close> of the items when it is a list; the system map is
  read again from the file at \<^verbatim>\<open>system_metadata_path\<close>, whose content is \<open>system_file\<close>.
\<close>

definition sys_compare_metadatas ::
  "string \<Rightarrow> system_item list option \<Rightarrow> metadata \<Rightarrow> system_item list option
     \<Rightarrow> py_error + system_comparison" where
  "sys_compare_metadatas now system_file etl_metadata system_metadata =
     bind (compare_etl_files (load_system_metadata system_file) (get_list (files etl_metadata)))
       (\<lambda>file_comparisons.
          Inr \<lparr>sc_generated_at = now,
               sc_etl_total_files = length (get_list (files etl_metadata)),
               sc_etl_generated_at = get (generated_at etl_metadata) '''',
               sc_system_total_tables =
                 (case system_metadata of None \<Rightarrow> 0 | Some items \<Rightarrow> length items),
               sc_files = file_comparisons,
               etl_without_system =
                 without_system (load_system_metadata system_file) (get_list (files etl_metadata)),
               etl_without_system_count =
                 length (without_system (load_system_metadata system_file)
                           (get_list (files etl_metadata)))\<rparr>)"

section \<open>Consolidation: \<^verbatim>\<open>ChamaConsolidatedMetadataService\<close>\<close>

record consolidated_field =
  cf_from_santander :: "string option"
  cf_laborit :: "string option"
  cf_type :: "string option"
  cf_exists_in_s3 :: bool
  cf_is_used_in_system :: bool

record consolidated_statistics =
  cs_total_fields :: nat
  cs_exists_in_s3_count :: nat
  cs_used_in_system_count :: nat
  cs_unused_in_system_count :: nat

record s3_summary =
  ss_has_s3_file :: bool
  ss_fields_in_both_count :: nat
  ss_fields_only_in_s3_count :: nat
  ss_fields_only_in_etl_count :: nat

record system_summary =
  sy_has_system_data :: bool
  sy_system_unused_columns_count :: nat

record consolidated_mapping =
  cm_map :: "string option"
  cm_table :: "string option"
  cm_fields :: "consolidated_field list"
  cm_statistics :: consolidated_statistics
  cm_s3_comparison :: s3_summary
  cm_system_comparison :: system_summary

record consolidated_file =
  cfile_name :: "string option"
  cfile_mappings :: "consolidated_mapping list"

record consolidated =
  cons_generated_at :: string
  cons_files :: "consolidated_file list"

text \<open>
  \<^verbatim>\<open>_check_field_in_s3\<close>, lines 40-43 and 46-49: the two loops, each returning at the
  first entry whose normalised \<^verbatim>\<open>from_santander\<close> is the normalised name.
\<close>

fun check_in_both :: "both_entry list \<Rightarrow> string \<Rightarrow> py_error + bool" where
  "check_in_both [] normalized_from_santander = Inr False"
| "check_in_both (field # rest) normalized_from_santander =
     bind (consolidated_normalize_name (be_from_santander field))
       (\<lambda>s3_normalized.
          if s3_normalized = normalized_from_santander then Inr True
          else check_in_both rest normalized_from_santander)"

fun check_in_only :: "only_entry list \<Rightarrow> string \<Rightarrow> py_error + bool" where
  "check_in_only [] normalized_from_santander = Inr False"
| "check_in_only (field # rest) normalized_from_santander =
     bind (consolidated_normalize_name (oe_from_santander field))
       (\<lambda>s3_normalized.
          if s3_normalized = normalized_from_santander then Inr True
          else check_in_only rest normalized_from_santander)"

text \<open>
  \<^verbatim>\<open>_check_field_in_s3(from_santander, s3_comparison)\<close>, lines 29-51;
  \<open>s3_comparison\<close> is \<open>None\<close> for the empty dict.
\<close>

fun check_field_in_s3 :: "string option \<Rightarrow> comparison_item option \<Rightarrow> py_error + bool" where
  "check_field_in_s3 from_santander_value None = Inr False"
| "check_field_in_s3 from_santander_value (Some s3_comparison) =
     bind (consolidated_normalize_name from_santander_value)
       (\<lambda>normalized_from_santander.
          bind (check_in_both (ci_fields_in_both s3_comparison) normalized_from_santander)
            (\<lambda>found.
               if found then Inr True
               else check_in_only (ci_fields_only_in_s3 s3_comparison) normalized_from_santander))"

text \<open>Lines 95-98; a document that was not found on disk is \<open>None\<close> and is read as \<^verbatim>\<open>{}\<close>.\<close>

definition s3_comparison_map :: "comparison option \<Rightarrow> (string option \<times> comparison_item) list" where
  "s3_comparison_map s3_comparison_data =
     fold (\<lambda>comp m. AList.update (ci_file_name comp) comp m)
       (case s3_comparison_data of None \<Rightarrow> [] | Some d \<Rightarrow> comparisons d) []"

text \<open>Lines 101-109.\<close>

definition mapping_map_of :: "mapping_comparison list \<Rightarrow> (string option \<times> mapping_comparison) list" where
  "mapping_map_of mapping_comps =
     fold (\<lambda>mapping_comp m. AList.update (mc_map mapping_comp) mapping_comp m) mapping_comps []"

definition system_comparison_map ::
  "system_comparison option
     \<Rightarrow> (string option \<times> (string option \<times> mapping_comparison) list) list" where
  "system_comparison_map system_comparison_data =
     fold (\<lambda>file_comp m. AList.update (fc_file_name file_comp) (mapping_map_of (fc_mappings file_comp)) m)
       (case system_comparison_data of None \<Rightarrow> [] | Some d \<Rightarrow> sc_files d) []"

text \<open>Lines 112-115.\<close>

definition s3_files_map_of :: "metadata option \<Rightarrow> files_map" where
  "s3_files_map_of s3_metadata =
     fold (\<lambda>file_data m. AList.update (get (name file_data) '''') file_data m)
       (case s3_metadata of None \<Rightarrow> [] | Some d \<Rightarrow> get_list (files d)) []"

text \<open>Lines 153-157; \<open>system_mapping_comp\<close> is \<open>None\<close> for the empty dict.\<close>

fun system_fields_map_of ::
  "field_with_usage list \<Rightarrow> (string \<times> field_with_usage) list
     \<Rightarrow> py_error + (string \<times> field_with_usage) list" where
  "system_fields_map_of [] system_fields_map = Inr system_fields_map"
| "system_fields_map_of (sys_field # rest) system_fields_map =
     bind (consolidated_normalize_name (fu_from_santander sys_field))
       (\<lambda>normalized. system_fields_map_of rest (AList.update normalized sys_field system_fields_map))"

text \<open>Lines 162-184: the loop over the fields of a mapping.\<close>

fun consolidate_fields ::
  "etl_field list \<Rightarrow> comparison_item option \<Rightarrow> (string \<times> field_with_usage) list
     \<Rightarrow> py_error + consolidated_field list" where
  "consolidate_fields [] s3_comparison system_fields_map = Inr []"
| "consolidate_fields (etl_field # rest) s3_comparison system_fields_map =
     bind (check_field_in_s3 (get (from_santander etl_field) '''') s3_comparison)
       (\<lambda>exists_in_s3.
     bind (consolidated_normalize_name (get (from_santander etl_field) ''''))
       (\<lambda>normalized_from_santander.
     bind (consolidate_fields rest s3_comparison system_fields_map)
       (\<lambda>others.
          Inr (\<lparr>cf_from_santander = get (from_santander etl_field) '''',
                cf_laborit = get (laborit etl_field) '''',
                cf_type = get (field_type etl_field) '''',
                cf_exists_in_s3 = exists_in_s3,
                cf_is_used_in_system =
                  (case map_of system_fields_map normalized_from_santander of
                     None \<Rightarrow> False
                   | Some system_field \<Rightarrow> fu_is_used_in_system system_field)\<rparr> # others))))"

text \<open>Lines 145-214: the body of the loop over the mappings of a file.\<close>

definition consolidate_mapping ::
  "bool \<Rightarrow> comparison_item option \<Rightarrow> (string option \<times> mapping_comparison) list
     \<Rightarrow> etl_mapping \<Rightarrow> py_error + consolidated_mapping" where
  "consolidate_mapping has_s3_file s3_comparison system_file_comparison etl_mapping =
     (let system_mapping_comp = map_of system_file_comparison (get (map_name etl_mapping) '''')
      in bind (system_fields_map_of
                 (case system_mapping_comp of None \<Rightarrow> [] | Some c \<Rightarrow> mc_fields c) [])
           (\<lambda>system_fields_map.
         bind (consolidate_fields (get_list (mfields etl_mapping)) s3_comparison system_fields_map)
           (\<lambda>consolidated_fields.
              let total_fields = length consolidated_fields;
                  used_in_system_count = length (filter cf_is_used_in_system consolidated_fields);
                  unused_in_system_count = total_fields - used_in_system_count;
                  exists_in_s3_count = length (filter cf_exists_in_s3 consolidated_fields)
              in Inr \<lparr>cm_map = get (map_name etl_mapping) '''',
                      cm_table = get (table etl_mapping) '''',
                      cm_fields = consolidated_fields,
                      cm_statistics =
                        \<lparr>cs_total_fields = total_fields,
                         cs_exists_in_s3_count = exists_in_s3_count,
                         cs_used_in_system_count = used_in_system_count,
                         cs_unused_in_system_count = unused_in_system_count\<rparr>,
                      cm_s3_comparison =
                        \<lparr>ss_has_s3_file = has_s3_file,
                         ss_fields_in_both_count =
                           (case s3_comparison of None \<Rightarrow> 0 | Some c \<Rightarrow> ci_fields_in_both_count c),
                         ss_fields_only_in_s3_count =
                           (case s3_comparison of None \<Rightarrow> 0 | Some c \<Rightarrow> ci_fields_only_in_s3_count c),
                         ss_fields_only_in_etl_count =
                           (case s3_comparison of None \<Rightarrow> 0 | Some c \<Rightarrow> ci_fields_only_in_etl_count c)\<rparr>,
                      cm_system_comparison =
                        \<lparr>sy_has_system_data =
                           (case system_mapping_comp of None \<Rightarrow> False | Some c \<Rightarrow> mc_has_system_data c),
                         sy_system_unused_columns_count =
                           (case system_mapping_comp of
                              None \<Rightarrow> 0
                            | Some c \<Rightarrow> mc_system_unused_columns_count c)\<rparr>\<rparr>)))"

fun consolidate_mappings ::
  "bool \<Rightarrow> comparison_item option \<Rightarrow> (string option \<times> mapping_comparison) list
     \<Rightarrow> etl_mapping list \<Rightarrow> py_error + consolidated_mapping list" where
  "consolidate_mappings has_s3_file s3_comparison system_file_comparison [] = Inr []"
| "consolidate_mappings has_s3_file s3_comparison system_file_comparison (etl_mapping # rest) =
     bind (consolidate_mapping has_s3_file s3_comparison system_file_comparison etl_mapping)
       (\<lambda>consolidated_mapping.
          bind (consolidate_mappings has_s3_file s3_comparison system_file_comparison rest)
            (\<lambda>others. Inr (consolidated_mapping # others)))"

text \<open>Lines 125-216: the loop over the files of the ETL document.\<close>

fun consolidate_files ::
  "files_map \<Rightarrow> (string option \<times> comparison_item) list
     \<Rightarrow> (string option \<times> (string option \<times> mapping_comparison) list) list
     \<Rightarrow> etl_file list \<Rightarrow> py_error + consolidated_file list" where
  "consolidate_files s3_files_map s3_cmp_map sys_cmp_map [] = Inr []"
| "consolidate_files s3_files_map s3_cmp_map sys_cmp_map (etl_file # rest) =
     (let file_name = get (name etl_file) ''''
      in bind (consolidate_mappings
                 (file_bool (map_of s3_files_map file_name))
                 (map_of s3_cmp_map file_name)
                 (case map_of sys_cmp_map file_name of None \<Rightarrow> [] | Some mapping_map \<Rightarrow> mapping_map)
                 (get_list (mappings etl_file)))
           (\<lambda>consolidated_mappings.
              bind (consolidate_files s3_files_map s3_cmp_map sys_cmp_map rest)
                (\<lambda>others.
                   Inr (\<lparr>cfile_name = file_name, cfile_mappings = consolidated_mappings\<rparr>
                        # others))))"

text \<open>
  \<^verbatim>\<open>consolidate()\<close>, lines 53-216. The four arguments are the contents of the four
  files it reads, \<open>None\<close> when the path does not exist; the result is the document it
  writes, \<open>None\<close> when it returns at line 74 without writing one.
\<close>

definition consolidate ::
  "string \<Rightarrow> metadata option \<Rightarrow> metadata option \<Rightarrow> comparison option
     \<Rightarrow> system_comparison option \<Rightarrow> py_error + consolidated option" where
  "consolidate now etl_metadata s3_metadata s3_comparison_data system_comparison_data =
     (case etl_metadata of
        None \<Rightarrow> Inr None
      | Some etl \<Rightarrow>
          bind (consolidate_files (s3_files_map_of s3_metadata)
                  (s3_comparison_map s3_comparison_data)
                  (system_comparison_map system_comparison_data)
                  (get_list (files etl)))
            (\<lambda>consolidated_files.
               Inr (Some \<lparr>cons_generated_at = now, cons_files = consolidated_files\<rparr>)))"

section \<open>Notions used in the statements\<close>

subsection \<open>ETL versus S3\<close>

text \<open>
  A field takes part in the comparison when its \<^verbatim>\<open>from_santander\<close> is true (line 89);
  \<open>field_info_of\<close> is the dict stored for it (lines 91-95) and \<open>normalized_name\<close> the key
  it is stored under; \<open>store\<close> is one pass of the loop body.
\<close>

definition has_name :: "etl_field \<Rightarrow> bool" where
  "has_name field = truthy (get (from_santander field) '''')"

definition field_info_of :: "etl_field \<Rightarrow> field_info" where
  "field_info_of field =
     \<lparr>fi_from_santander = get (from_santander field) '''',
      fi_laborit = get (laborit field) '''',
      fi_type = get (field_type field) ''''\<rparr>"

definition normalized :: "string option \<Rightarrow> string" where
  "normalized v = (case s3_normalize_column_name v of Inl e \<Rightarrow> [] | Inr s \<Rightarrow> s)"

definition normalized_name :: "etl_field \<Rightarrow> string" where
  "normalized_name field = normalized (get (from_santander field) '''')"

definition store :: "etl_field \<Rightarrow> fields_map \<Rightarrow> fields_map" where
  "store field m =
     (if has_name field then AList.update (normalized_name field) (field_info_of field) m else m)"

text \<open>Every value of a fields map is stored under its own normalised name.\<close>

definition keyed :: "fields_map \<Rightarrow> bool" where
  "keyed m =
     (\<forall>(k, v) \<in> set m. truthy (fi_from_santander v) \<and> normalized (fi_from_santander v) = k)"

text \<open>
  All fields of all mappings of a file, in the order of the two nested loops, and the
  set of normalised field names of a file.
\<close>

definition all_fields :: "etl_file option \<Rightarrow> etl_field list" where
  "all_fields file_data =
     (case file_data of
        None \<Rightarrow> []
      | Some f \<Rightarrow> concat (map (\<lambda>mapping. get_list (mfields mapping)) (get_list (mappings f))))"

definition field_names :: "etl_file option \<Rightarrow> string set" where
  "field_names file_data = normalized_name ` set (filter has_name (all_fields file_data))"

text \<open>The file that \<^verbatim>\<open>files_map.get(key)\<close> finds in a document.\<close>

definition file_named :: "metadata \<Rightarrow> string option \<Rightarrow> etl_file option" where
  "file_named d key =
     (case files_by_name (get_list (files d)) [] of
        Inl e \<Rightarrow> None
      | Inr files_map \<Rightarrow> map_of files_map key)"

definition file_names :: "metadata \<Rightarrow> string option set" where
  "file_names d = (\<lambda>file_data. get (name file_data) '''') ` set (get_list (files d))"

text \<open>The normalised source names of the three lists of a comparison item.\<close>

definition both_names :: "comparison_item \<Rightarrow> string list" where
  "both_names item = map (\<lambda>e. normalized (be_from_santander e)) (ci_fields_in_both item)"

definition only_s3_names :: "comparison_item \<Rightarrow> string list" where
  "only_s3_names item = map (\<lambda>e. normalized (oe_from_santander e)) (ci_fields_only_in_s3 item)"

definition only_etl_names :: "comparison_item \<Rightarrow> string list" where
  "only_etl_names item = map (\<lambda>e. normalized (oe_from_santander e)) (ci_fields_only_in_etl item)"

text \<open>The order of Python on file names that are strings.\<close>

definition name_less :: "string option \<Rightarrow> string option \<Rightarrow> bool" where
  "name_less a b = (case (a, b) of (Some x, Some y) \<Rightarrow> x < y | _ \<Rightarrow> False)"

text \<open>Every file of a document has a name that is a string.\<close>

definition string_names :: "metadata \<Rightarrow> bool" where
  "string_names d =
     list_all (\<lambda>file_data. case name file_data of Str s \<Rightarrow> True | _ \<Rightarrow> False)
       (get_list (files d))"

text \<open>A document without the fields that have no \<^verbatim>\<open>from_santander\<close>.\<close>

definition named_fields_only :: "etl_file \<Rightarrow> etl_file" where
  "named_fields_only file_data =
     file_data\<lparr>mappings :=
       map_option (map (\<lambda>mapping. mapping\<lparr>mfields := map_option (filter has_name) (mfields mapping)\<rparr>))
         (mappings file_data)\<rparr>"

definition named_only :: "metadata \<Rightarrow> metadata" where
  "named_only d = d\<lparr>files := map_option (map named_fields_only) (files d)\<rparr>"

subsection \<open>ETL versus System\<close>

text \<open>
  The normalised names of the non-null entries of a list of unused columns, and the
  normalised \<^verbatim>\<open>laborit\<close> of a field: lower-cased and stripped, the empty string when
  the value is \<^verbatim>\<open>null\<close>. Both are written with \<open>lower\<close> and \<open>strip\<close> alone.
\<close>

definition normalized_unused :: "string option list \<Rightarrow> string set" where
  "normalized_unused names = (\<lambda>s. strip (lower s)) ` set (List.map_filter id names)"

definition laborit_normalized :: "etl_field \<Rightarrow> string" where
  "laborit_normalized field =
     (case get (laborit field) '''' of None \<Rightarrow> [] | Some s \<Rightarrow> strip (lower s))"

text \<open>
  The usage record of a table in the system document: the last item whose \<^verbatim>\<open>tabela\<close>
  is that table's name, a non-empty string; and the unused set of a record, empty
  when there is no record or its \<^verbatim>\<open>colunas_nao_utilizadas\<close> is neither a dict nor a list.
\<close>

definition usage_record :: "system_item list option \<Rightarrow> string option \<Rightarrow> system_item option" where
  "usage_record system_file table_name =
     (case filter (\<lambda>item. truthy (get (tabela item) '''') \<and> get (tabela item) '''' = table_name)
             (get_list system_file) of
        [] \<Rightarrow> None
      | item # others \<Rightarrow> Some (last (item # others)))"

definition unused_names :: "system_item option \<Rightarrow> string set" where
  "unused_names record =
     (case record of
        None \<Rightarrow> {}
      | Some item \<Rightarrow>
          (case colunas_nao_utilizadas item of
             ColsMissing \<Rightarrow> {}
           | ColsDict unused_columns_dict \<Rightarrow> normalized_unused (map snd unused_columns_dict)
           | ColsList unused_columns_list \<Rightarrow> normalized_unused unused_columns_list
           | ColsOther \<Rightarrow> {}))"

text \<open>
  The set of unused columns that \<^verbatim>\<open>compare_metadatas\<close> gets for a mapping
  (lines 98-101), as the code computes it.
\<close>

definition unused_set_for :: "system_map \<Rightarrow> etl_mapping \<Rightarrow> string set" where
  "unused_set_for system_map mapping =
     (case get_unused_columns (system_data_for system_map (get (table mapping) '''')) of
        Inl e \<Rightarrow> {}
      | Inr (unused_columns_set, unused_columns_mapping) \<Rightarrow> unused_columns_set)"

text \<open>One pass of the loop of lines 108-129, without the counters.\<close>

definition usage_of :: "string set \<Rightarrow> etl_field \<Rightarrow> field_with_usage" where
  "usage_of unused_columns_set field =
     \<lparr>fu_from_santander = get (from_santander field) '''',
      fu_laborit = get (laborit field) '''',
      fu_type = get (field_type field) '''',
      fu_is_used_in_system = (laborit_normalized field \<notin> unused_columns_set)\<rparr>"

subsection \<open>Consolidation\<close>

text \<open>
  No \<^verbatim>\<open>from_santander\<close> of an ETL document, or of a usage comparison, is \<^verbatim>\<open>null\<close>.
\<close>

definition names_not_null :: "metadata \<Rightarrow> bool" where
  "names_not_null d =
     list_all (\<lambda>etl_file.
       list_all (\<lambda>mapping.
         list_all (\<lambda>field. from_santander field \<noteq> Null) (get_list (mfields mapping)))
         (get_list (mappings etl_file)))
       (get_list (files d))"

definition usage_names_not_null :: "system_comparison option \<Rightarrow> bool" where
  "usage_names_not_null system_comparison_data =
     list_all (\<lambda>file_comp.
       list_all (\<lambda>mapping_comp.
         list_all (\<lambda>sys_field. fu_from_santander sys_field \<noteq> None) (mc_fields mapping_comp))
         (fc_mappings file_comp))
       (case system_comparison_data of None \<Rightarrow> [] | Some d \<Rightarrow> sc_files d)"

text \<open>
  No \<^verbatim>\<open>from_santander\<close> of \<^verbatim>\<open>fields_in_both\<close> and \<^verbatim>\<open>fields_only_in_s3\<close> of an S3
  comparison is \<^verbatim>\<open>null\<close>.
\<close>

definition entries_not_null :: "comparison_item \<Rightarrow> bool" where
  "entries_not_null item =
     (list_all (\<lambda>field. be_from_santander field \<noteq> None) (ci_fields_in_both item)
      \<and> list_all (\<lambda>field. oe_from_santander field \<noteq> None) (ci_fields_only_in_s3 item))"

definition comparison_names_not_null :: "comparison option \<Rightarrow> bool" where
  "comparison_names_not_null s3_comparison_data =
     list_all entries_not_null
       (case s3_comparison_data of None \<Rightarrow> [] | Some d \<Rightarrow> comparisons d)"

section \<open>Example documents\<close>

definition example_clients_file :: etl_file where
  "example_clients_file =
     \<lparr>name = Str ''clients'',
      mappings = Some
        [\<lparr>map_name = Str ''map_clients'', table = Str ''tb_clients'',
          mfields = Some
            [\<lparr>from_santander = Str ''Client_ID'', laborit = Str ''client_id'',
              field_type = Str ''int''\<rparr>,
             \<lparr>from_santander = Str ''Name '', laborit = Str ''client_name'',
              field_type = Str ''str''\<rparr>]\<rparr>,
         \<lparr>map_name = Str ''map_names'', table = Str ''tb_names'',
          mfields = Some
            [\<lparr>from_santander = Str '' NAME'', laborit = Str ''nome'',
              field_type = Str ''text''\<rparr>,
             \<lparr>from_santander = Missing, laborit = Str ''orphan'', field_type = Str ''str''\<rparr>,
             \<lparr>from_santander = Str '''', laborit = Str ''blank'', field_type = Missing\<rparr>]\<rparr>]\<rparr>"

definition example_etl :: metadata where
  "example_etl =
     \<lparr>generated_at = Str ''2025-01-01'',
      files = Some
        [example_clients_file,
         \<lparr>name = Str ''orders'',
          mappings = Some
            [\<lparr>map_name = Str ''map_orders'', table = Str ''tb_orders'',
              mfields = Some
                [\<lparr>from_santander = Str ''Order'', laborit = Str ''order_id'',
                  field_type = Str ''int''\<rparr>]\<rparr>]\<rparr>]\<rparr>"

definition example_s3 :: metadata where
  "example_s3 =
     \<lparr>generated_at = Missing,
      files = Some
        [\<lparr>name = Str ''clients'',
          mappings = Some
            [\<lparr>map_name = Missing, table = Missing,
              mfields = Some
                [\<lparr>from_santander = Str ''CLIENT_ID'', laborit = Str '''',
                  field_type = Str ''bigint''\<rparr>,
                 \<lparr>from_santander = Str ''extra'', laborit = Str '''',
                  field_type = Str ''str''\<rparr>]\<rparr>]\<rparr>,
         \<lparr>name = Str ''accounts'', mappings = None\<rparr>]\<rparr>"

definition example_clients :: comparison_item where
  "example_clients =
     \<lparr>ci_file_name = Some ''clients'', ci_has_s3_file = True,
      ci_has_etl_file = True, ci_s3_mappings_count = 1,
      ci_etl_mappings_count = 2, ci_s3_fields_count = 2,
      ci_etl_fields_count = 2, ci_fields_in_both_count = 1,
      ci_fields_only_in_s3_count = 1,
      ci_fields_only_in_etl_count = 1,
      ci_fields_in_both =
        [\<lparr>be_from_santander = Some ''CLIENT_ID'',
          be_s3_laborit = Some [], be_s3_type = Some ''bigint'',
          be_etl_laborit = Some ''client_id'',
          be_etl_type = Some ''int''\<rparr>],
      ci_fields_only_in_s3 =
        [\<lparr>oe_from_santander = Some ''extra'', oe_laborit = Some [],
          oe_type = Some ''str''\<rparr>],
      ci_fields_only_in_etl =
        [\<lparr>oe_from_santander = Some '' NAME'',
          oe_laborit = Some ''nome'', oe_type = Some ''text''\<rparr>]\<rparr>"

definition example_comparison :: comparison where
  "example_comparison =
     \<lparr>cmp_generated_at = ''now'', cmp_s3_total_files = 2,
      cmp_s3_generated_at = Some [], cmp_etl_total_files = 2,
      cmp_etl_generated_at = Some ''2025-01-01'',
      comparisons =
        [\<lparr>ci_file_name = Some ''accounts'', ci_has_s3_file = True,
          ci_has_etl_file = False, ci_s3_mappings_count = 0,
          ci_etl_mappings_count = 0, ci_s3_fields_count = 0,
          ci_etl_fields_count = 0, ci_fields_in_both_count = 0,
          ci_fields_only_in_s3_count = 0,
          ci_fields_only_in_etl_count = 0, ci_fields_in_both = [],
          ci_fields_only_in_s3 = [], ci_fields_only_in_etl = []\<rparr>,
         example_clients,
         \<lparr>ci_file_name = Some ''orders'', ci_has_s3_file = False,
          ci_has_etl_file = True, ci_s3_mappings_count = 0,
          ci_etl_mappings_count = 1, ci_s3_fields_count = 0,
          ci_etl_fields_count = 1, ci_fields_in_both_count = 0,
          ci_fields_only_in_s3_count = 0,
          ci_fields_only_in_etl_count = 1, ci_fields_in_both = [],
          ci_fields_only_in_s3 = [],
          ci_fields_only_in_etl =
            [\<lparr>oe_from_santander = Some ''Order'',
              oe_laborit = Some ''order_id'',
              oe_type = Some ''int''\<rparr>]\<rparr>],
      etl_files_without_s3 =
        [\<lparr>ws_file_name = Some ''orders'', ws_mappings_count = 1,
          ws_fields_count = 1\<rparr>],
      etl_files_without_s3_count = 1\<rparr>"

definition example_system :: "system_item list" where
  "example_system =
     [\<lparr>tabela = Str ''tb_clients'',
       colunas_nao_utilizadas = ColsDict [(''Nome Cliente'', Some ''client_name''), (''Obs'', None)]\<rparr>,
      \<lparr>tabela = Str ''tb_names'',
       colunas_nao_utilizadas = ColsList [Some '' NOME '', None]\<rparr>,
      \<lparr>tabela = Str '''', colunas_nao_utilizadas = ColsList [Some ''order_id'']\<rparr>]"

definition example_orders_usage :: mapping_comparison where
  "example_orders_usage =
     \<lparr>mc_map = Some ''map_orders'', mc_table = Some ''tb_orders'',
      mc_has_system_data = False,
      mc_fields =
        [\<lparr>fu_from_santander = Some ''Order'', fu_laborit = Some ''order_id'',
          fu_type = Some ''int'', fu_is_used_in_system = True\<rparr>],
      mc_statistics = \<lparr>st_total_fields = 1, st_used_count = 1, st_unused_count = 0\<rparr>,
      mc_system_unused_columns_count = 0\<rparr>"

definition example_usage :: system_comparison where
  "example_usage =
     \<lparr>sc_generated_at = ''now'', sc_etl_total_files = 2,
      sc_etl_generated_at = Some ''2025-01-01'',
      sc_system_total_tables = 3,
      sc_files =
        [\<lparr>fc_file_name = Some ''clients'',
          fc_mappings =
            [\<lparr>mc_map = Some ''map_clients'', mc_table = Some ''tb_clients'',
              mc_has_system_data = True,
              mc_fields =
                [\<lparr>fu_from_santander = Some ''Client_ID'', fu_laborit = Some ''client_id'',
                  fu_type = Some ''int'', fu_is_used_in_system = True\<rparr>,
                 \<lparr>fu_from_santander = Some ''Name '', fu_laborit = Some ''client_name'',
                  fu_type = Some ''str'', fu_is_used_in_system = False\<rparr>],
              mc_statistics = \<lparr>st_total_fields = 2, st_used_count = 1, st_unused_count = 1\<rparr>,
              mc_system_unused_columns_count = 1\<rparr>,
             \<lparr>mc_map = Some ''map_names'', mc_table = Some ''tb_names'',
              mc_has_system_data = True,
              mc_fields =
                [\<lparr>fu_from_santander = Some '' NAME'', fu_laborit = Some ''nome'',
                  fu_type = Some ''text'', fu_is_used_in_system = False\<rparr>,
                 \<lparr>fu_from_santander = Some [], fu_laborit = Some ''orphan'',
                  fu_type = Some ''str'', fu_is_used_in_system = True\<rparr>,
                 \<lparr>fu_from_santander = Some [], fu_laborit = Some ''blank'',
                  fu_type = Some [], fu_is_used_in_system = True\<rparr>],
              mc_statistics = \<lparr>st_total_fields = 3, st_used_count = 2, st_unused_count = 1\<rparr>,
              mc_system_unused_columns_count = 1\<rparr>]\<rparr>,
         \<lparr>fc_file_name = Some ''orders'', fc_mappings = [example_orders_usage]\<rparr>],
      etl_without_system =
        [\<lparr>wy_file_name = Some ''orders'', wy_map = Some ''map_orders'',
          wy_table = Some ''tb_orders'', wy_fields_count = 1\<rparr>],
      etl_without_system_count = 1\<rparr>"

definition example_consolidated :: consolidated where
  "example_consolidated =
     \<lparr>cons_generated_at = ''now'',
      cons_files =
        [\<lparr>cfile_name = Some ''clients'',
          cfile_mappings =
            [\<lparr>cm_map = Some ''map_clients'', cm_table = Some ''tb_clients'',
              cm_fields =
                [\<lparr>cf_from_santander = Some ''Client_ID'', cf_laborit = Some ''client_id'',
                  cf_type = Some ''int'', cf_exists_in_s3 = True, cf_is_used_in_system = True\<rparr>,
                 \<lparr>cf_from_santander = Some ''Name '', cf_laborit = Some ''client_name'',
                  cf_type = Some ''str'', cf_exists_in_s3 = False, cf_is_used_in_system = False\<rparr>],
              cm_statistics =
                \<lparr>cs_total_fields = 2, cs_exists_in_s3_count = 1,
                 cs_used_in_system_count = 1, cs_unused_in_system_count = 1\<rparr>,
              cm_s3_comparison =
                \<lparr>ss_has_s3_file = True, ss_fields_in_both_count = 1,
                 ss_fields_only_in_s3_count = 1, ss_fields_only_in_etl_count = 1\<rparr>,
              cm_system_comparison =
                \<lparr>sy_has_system_data = True, sy_system_unused_columns_count = 1\<rparr>\<rparr>,
             \<lparr>cm_map = Some ''map_names'', cm_table = Some ''tb_names'',
              cm_fields =
                [\<lparr>cf_from_santander = Some '' NAME'', cf_laborit = Some ''nome'',
                  cf_type = Some ''text'', cf_exists_in_s3 = False, cf_is_used_in_system = False\<rparr>,
                 \<lparr>cf_from_santander = Some [], cf_laborit = Some ''orphan'',
                  cf_type = Some ''str'', cf_exists_in_s3 = False, cf_is_used_in_system = True\<rparr>,
                 \<lparr>cf_from_santander = Some [], cf_laborit = Some ''blank'',
                  cf_type = Some [], cf_exists_in_s3 = False, cf_is_used_in_system = True\<rparr>],
              cm_statistics =
                \<lparr>cs_total_fields = 3, cs_exists_in_s3_count = 0,
                 cs_used_in_system_count = 2, cs_unused_in_system_count = 1\<rparr>,
              cm_s3_comparison =
                \<lparr>ss_has_s3_file = True, ss_fields_in_both_count = 1,
                 ss_fields_only_in_s3_count = 1, ss_fields_only_in_etl_count = 1\<rparr>,
              cm_system_comparison =
                \<lparr>sy_has_system_data = True, sy_system_unused_columns_count = 1\<rparr>\<rparr>]\<rparr>,
         \<lparr>cfile_name = Some ''orders'',
          cfile_mappings =
            [\<lparr>cm_map = Some ''map_orders'', cm_table = Some ''tb_orders'',
              cm_fields =
                [\<lparr>cf_from_santander = Some ''Order'', cf_laborit = Some ''order_id'',
                  cf_type = Some ''int'', cf_exists_in_s3 = False, cf_is_used_in_system = True\<rparr>],
              cm_statistics =
                \<lparr>cs_total_fields = 1, cs_exists_in_s3_count = 0,
                 cs_used_in_system_count = 1, cs_unused_in_system_count = 0\<rparr>,
              cm_s3_comparison =
                \<lparr>ss_has_s3_file = False, ss_fields_in_both_count = 0,
                 ss_fields_only_in_s3_count = 0, ss_fields_only_in_etl_count = 1\<rparr>,
              cm_system_comparison =
                \<lparr>sy_has_system_data = False, sy_system_unused_columns_count = 0\<rparr>\<rparr>]\<rparr>]\<rparr>"

text \<open>A small ETL document and a storage document that has its file.\<close>

definition small_etl :: metadata where
  "small_etl =
     \<lparr>generated_at = Missing,
      files = Some
        [\<lparr>name = Str ''clients'',
          mappings = Some
            [\<lparr>map_name = Str ''map_clients'', table = Str ''tb_clients'',
              mfields = Some
                [\<lparr>from_santander = Str ''Client_ID'', laborit = Str ''client_id'',
                  field_type = Str ''int''\<rparr>]\<rparr>]\<rparr>]\<rparr>"

definition small_s3 :: metadata where
  "small_s3 =
     \<lparr>generated_at = Missing,
      files = Some
        [\<lparr>name = Str ''clients'',
          mappings = Some
            [\<lparr>map_name = Missing, table = Missing,
              mfields = Some
                [\<lparr>from_santander = Str ''CLIENT_ID'', laborit = Missing,
                  field_type = Missing\<rparr>]\<rparr>]\<rparr>]\<rparr>"

text \<open>An ETL document with a field whose \<^verbatim>\<open>from_santander\<close> is \<^verbatim>\<open>null\<close>.\<close>

definition null_etl :: metadata where
  "null_etl =
     \<lparr>generated_at = Missing,
      files = Some
        [\<lparr>name = Str ''clients'',
          mappings = Some
            [\<lparr>map_name = Str ''map_clients'', table = Str ''tb_clients'',
              mfields = Some
                [\<lparr>from_santander = Null, laborit = Str ''client_id'',
                  field_type = Str ''int''\<rparr>]\<rparr>]\<rparr>]\<rparr>"

text \<open>
  An ETL document whose \<^verbatim>\<open>laborit\<close> names differ from the unused names in case and
  white space, and a system document with two records for one table.
\<close>

definition mixed_case_etl :: metadata where
  "mixed_case_etl =
     \<lparr>generated_at = Missing,
      files = Some
        [\<lparr>name = Str ''clients'',
          mappings = Some
            [\<lparr>map_name = Str ''map_clients'', table = Str ''tb_clients'',
              mfields = Some
                [\<lparr>from_santander = Str ''A'', laborit = Str '' Client_Name '', field_type = Missing\<rparr>,
                 \<lparr>from_santander = Str ''B'', laborit = Str ''CLIENT_NAME'', field_type = Missing\<rparr>,
                 \<lparr>from_santander = Str ''C'', laborit = Null, field_type = Missing\<rparr>,
                 \<lparr>from_santander = Str ''D'', laborit = Str ''client_id'', field_type = Missing\<rparr>,
                 \<lparr>from_santander = Str ''E'', laborit = Missing, field_type = Missing\<rparr>]\<rparr>,
             \<lparr>map_name = Str ''map_orders'', table = Str ''tb_orders'',
              mfields = Some
                [\<lparr>from_santander = Str ''F'', laborit = Str ''Order_Id '', field_type = Missing\<rparr>,
                 \<lparr>from_santander = Str ''G'', laborit = Str ''total'', field_type = Missing\<rparr>]\<rparr>]\<rparr>]\<rparr>"

definition mixed_case_system :: "system_item list" where
  "mixed_case_system =
     [\<lparr>tabela = Str ''tb_clients'', colunas_nao_utilizadas = ColsList [Some ''client_id'']\<rparr>,
      \<lparr>tabela = Str ''tb_orders'',
       colunas_nao_utilizadas = ColsDict [(''Pedido'', Some '' ORDER_ID''), (''Obs'', None)]\<rparr>,
      \<lparr>tabela = Str ''tb_clients'',
       colunas_nao_utilizadas = ColsList [Some ''Client_NAME '', None]\<rparr>]"

definition mixed_case_usage :: system_comparison where
  "mixed_case_usage =
     \<lparr>sc_generated_at = ''now'', sc_etl_total_files = 1,
      sc_etl_generated_at = Some [], sc_system_total_tables = 3,
      sc_files =
        [\<lparr>fc_file_name = Some ''clients'',
          fc_mappings =
            [\<lparr>mc_map = Some ''map_clients'', mc_table = Some ''tb_clients'',
              mc_has_system_data = True,
              mc_fields =
                [\<lparr>fu_from_santander = Some ''A'', fu_laborit = Some '' Client_Name '',
                  fu_type = Some [], fu_is_used_in_system = False\<rparr>,
                 \<lparr>fu_from_santander = Some ''B'', fu_laborit = Some ''CLIENT_NAME'',
                  fu_type = Some [], fu_is_used_in_system = False\<rparr>,
                 \<lparr>fu_from_santander = Some ''C'', fu_laborit = None,
                  fu_type = Some [], fu_is_used_in_system = True\<rparr>,
                 \<lparr>fu_from_santander = Some ''D'', fu_laborit = Some ''client_id'',
                  fu_type = Some [], fu_is_used_in_system = True\<rparr>,
                 \<lparr>fu_from_santander = Some ''E'', fu_laborit = Some [],
                  fu_type = Some [], fu_is_used_in_system = True\<rparr>],
              mc_statistics = \<lparr>st_total_fields = 5, st_used_count = 3, st_unused_count = 2\<rparr>,
              mc_system_unused_columns_count = 1\<rparr>,
             \<lparr>mc_map = Some ''map_orders'', mc_table = Some ''tb_orders'',
              mc_has_system_data = True,
              mc_fields =
                [\<lparr>fu_from_santander = Some ''F'', fu_laborit = Some ''Order_Id '',
                  fu_type = Some [], fu_is_used_in_system = False\<rparr>,
                 \<lparr>fu_from_santander = Some ''G'', fu_laborit = Some ''total'',
                  fu_type = Some [], fu_is_used_in_system = True\<rparr>],
              mc_statistics = \<lparr>st_total_fields = 2, st_used_count = 1, st_unused_count = 1\<rparr>,
              mc_system_unused_columns_count = 1\<rparr>]\<rparr>],
      etl_without_system = [], etl_without_system_count = 0\<rparr>"

section \<open>Basic facts\<close>

lemma bind_Inr [simp]: "bind (Inr x) f = f x"
  by (simp add: bind_def)

lemma bind_Inl [simp]: "bind (Inl e) f = Inl e"
  by (simp add: bind_def)

lemma bind_eq_Inr: "bind m f = Inr y \<longleftrightarrow> (\<exists>x. m = Inr x \<and> f x = Inr y)"
  by (cases m) simp_all

lemma strip_Nil [simp]: "strip [] = []"
  by (simp add: strip_def)

lemma lower_Nil [simp]: "lower [] = []"
  by (simp add: lower_def)

lemma subscript_Inr: "subscript m = Inr k \<Longrightarrow> k = get m ''''"
  by (cases m) simp_all

lemma set_update_subset: "set (AList.update k v m) \<subseteq> insert (k, v) (set m)"
  by (induction m) auto

lemma update_map_apsnd:
  "AList.update k (g v) (map (apsnd g) m) = map (apsnd g) (AList.update k v m)"
  by (induction m) auto

lemma map_of_map_apsnd: "map_of (map (apsnd g) m) k = map_option g (map_of m k)"
  by (induction m) auto

section \<open>Name normalisation\<close>

text \<open>
  C9, as the code has it. On every string the three normalisers of the comparison
  services return the lower-cased, stripped string without raising, hence the empty
  string on the empty string. On \<^verbatim>\<open>None\<close> only \<^verbatim>\<open>normalize_column_name\<close> of the
  ETL-versus-System comparator returns the empty string: it alone has the guard
  \<^verbatim>\<open>if col_name else ''\<close>. The other two raise \<^verbatim>\<open>AttributeError\<close> on \<^verbatim>\<open>None\<close>; their
  callers test the value before the call (line 89 of the S3 comparator, lines 69 and 79
  of \<^verbatim>\<open>_get_unused_columns\<close>).
\<close>

theorem normalize_on_strings:
  "s3_normalize_column_name (Some s) = Inr (strip (lower s))
   \<and> sys_normalize_column_name (Some s) = Inr (strip (lower s))
   \<and> from_system_normalize_name (Some s) = Inr (strip (lower s))
   \<and> strip (lower []) = []
   \<and> sys_normalize_column_name None = Inr []"
  by (simp add: sys_normalize_column_name_def)

theorem normalize_on_strings_witness:
  "s3_normalize_column_name (Some '' Client_ID '') = Inr ''client_id''
   \<and> sys_normalize_column_name (Some '' Client_ID '') = Inr ''client_id''
   \<and> from_system_normalize_name (Some '' Client_ID '') = Inr ''client_id''
   \<and> sys_normalize_column_name None = Inr []"
proof -
  have "strip (lower '' Client_ID '') = ''client_id''"
    by code_simp
  with normalize_on_strings [of "'' Client_ID ''"] show ?thesis
    by simp
qed

text \<open>C9 as stated fails on \<^verbatim>\<open>None\<close> for two of the three normalisers.\<close>

theorem normalize_none_raises:
  "s3_normalize_column_name None = Inl AttributeError
   \<and> from_system_normalize_name None = Inl AttributeError"
  by simp

section \<open>ETL versus S3\<close>

subsection \<open>The fields map of a file\<close>

lemma has_name_normalize:
  "has_name field \<Longrightarrow>
     s3_normalize_column_name (get (from_santander field) '''') = Inr (normalized_name field)"
  by (cases "get (from_santander field) ''''")
    (simp_all add: has_name_def normalized_name_def normalized_def)

lemma collect_fields_step:
  "collect_fields (field # rest) m = collect_fields rest (store field m)"
  using has_name_normalize [of field]
  by (simp add: field_info_of_def has_name_def store_def)

lemma collect_fields_store: "collect_fields fs m = Inr (fold store fs m)"
proof (induction fs arbitrary: m)
  case Nil
  show ?case by simp
next
  case (Cons field rest)
  show ?case
    unfolding collect_fields_step Cons.IH by simp
qed

lemma collect_mappings_store:
  "collect_mappings ms m =
     Inr (fold store (concat (map (\<lambda>mapping. get_list (mfields mapping)) ms)) m)"
  by (induction ms arbitrary: m) (simp_all add: collect_fields_store)

lemma collect_file_fields_store:
  "collect_file_fields file_data = Inr (fold store (all_fields file_data) [])"
proof (cases file_data)
  case None
  then show ?thesis by (simp add: all_fields_def)
next
  case (Some f)
  then show ?thesis
    by (cases "mappings f") (simp_all add: all_fields_def collect_mappings_store)
qed

lemma map_of_store:
  "map_of (store field m) k =
     (if has_name field \<and> normalized_name field = k then Some (field_info_of field)
      else map_of m k)"
  by (simp add: store_def update_conv')

lemma map_of_fold_store:
  "map_of (fold store fs m) k =
     (case filter (\<lambda>field. has_name field \<and> normalized_name field = k) fs of
        [] \<Rightarrow> map_of m k
      | field # others \<Rightarrow> Some (field_info_of (last (field # others))))"
proof (induction fs arbitrary: m)
  case Nil
  show ?case by simp
next
  case (Cons f fs)
  show ?case
    by (simp add: Cons.IH map_of_store split: list.splits)
qed

lemma distinct_fold_store:
  "distinct (map fst m) \<Longrightarrow> distinct (map fst (fold store fs m))"
  by (induction fs arbitrary: m) (simp_all add: store_def distinct_update)

lemma keys_fold_store:
  "fst ` set (fold store fs m) = fst ` set m \<union> normalized_name ` set (filter has_name fs)"
  by (induction fs arbitrary: m) (auto simp: store_def dom_update)

lemma values_fold_store:
  "(k, v) \<in> set (fold store fs m) \<Longrightarrow>
     (k, v) \<in> set m
     \<or> (\<exists>field \<in> set fs. has_name field \<and> k = normalized_name field \<and> v = field_info_of field)"
proof (induction fs arbitrary: m)
  case Nil
  then show ?case by simp
next
  case (Cons f fs)
  from Cons.IH [of "store f m"] Cons.prems
  have "(k, v) \<in> set (store f m)
      \<or> (\<exists>field \<in> set fs. has_name field \<and> k = normalized_name field \<and> v = field_info_of field)"
    by simp
  moreover have "set (store f m)
      \<subseteq> (if has_name f then insert (normalized_name f, field_info_of f) (set m) else set m)"
    using set_update_subset [of "normalized_name f" "field_info_of f" m]
    by (simp add: store_def)
  ultimately show ?case
    by (auto split: if_splits)
qed

lemma fold_store_filter: "fold store (filter has_name fs) m = fold store fs m"
  by (induction fs arbitrary: m) (simp_all add: store_def)

lemma keyed_fold_store: "keyed (fold store fs [])"
proof -
  have "truthy (fi_from_santander v) \<and> normalized (fi_from_santander v) = k"
    if "(k, v) \<in> set (fold store fs [])" for k v
    using values_fold_store [OF that]
    by (auto simp: field_info_of_def normalized_name_def has_name_def)
  then show ?thesis
    unfolding keyed_def by blast
qed

subsection \<open>The three lists\<close>

lemma fields_in_both_Nil1: "fields_in_both [] E = []"
  by (simp add: fields_in_both_def)

lemma fields_in_both_Nil2: "fields_in_both S [] = []"
  by (induction S) (simp_all add: fields_in_both_def split_beta)

lemma names_in_both:
  "keyed S \<Longrightarrow>
     map (\<lambda>e. normalized (be_from_santander e)) (fields_in_both S E) =
       filter (\<lambda>k. k \<in> fst ` set E) (map fst S)"
proof (induction S)
  case Nil
  show ?case by (simp add: fields_in_both_def)
next
  case (Cons p S)
  obtain k v where p: "p = (k, v)" by (cases p)
  from Cons.prems have keyed: "keyed S" and kv: "normalized (fi_from_santander v) = k"
    by (simp_all add: keyed_def p)
  have mem: "map_of E k = None \<longleftrightarrow> k \<notin> fst ` set E"
    by (simp add: map_of_eq_None_iff)
  show ?case
    using Cons.IH [OF keyed] kv mem
    by (cases "map_of E k") (auto simp: fields_in_both_def p)
qed

lemma names_only_in_s3:
  "keyed S \<Longrightarrow>
     map (\<lambda>e. normalized (oe_from_santander e)) (fields_only_in_s3 S E) =
       filter (\<lambda>k. k \<notin> fst ` set E) (map fst S)"
proof (induction S)
  case Nil
  show ?case by (simp add: fields_only_in_s3_def)
next
  case (Cons p S)
  obtain k v where p: "p = (k, v)" by (cases p)
  from Cons.prems have keyed: "keyed S" and kv: "normalized (fi_from_santander v) = k"
    by (simp_all add: keyed_def p)
  have eq: "fields_only_in_s3 (p # S) E =
      (if k \<notin> fst ` set E then [only_entry_of v] else []) @ fields_only_in_s3 S E"
    by (simp add: fields_only_in_s3_def p map_of_eq_None_iff)
  show ?case
    unfolding eq using Cons.IH [OF keyed] kv
    by (simp add: p only_entry_of_def)
qed

lemma names_only_in_etl:
  "keyed E \<Longrightarrow>
     map (\<lambda>e. normalized (oe_from_santander e)) (fields_only_in_etl S E) =
       filter (\<lambda>k. k \<notin> fst ` set S) (map fst E)"
  using names_only_in_s3 [of E S]
  by (simp add: fields_only_in_s3_def fields_only_in_etl_def)

lemma partition_lists:
  assumes "keyed S" and "keyed E" and "distinct (map fst S)" and "distinct (map fst E)"
  defines "both \<equiv> map (\<lambda>e. normalized (be_from_santander e)) (fields_in_both S E)"
    and "only_s3 \<equiv> map (\<lambda>e. normalized (oe_from_santander e)) (fields_only_in_s3 S E)"
    and "only_etl \<equiv> map (\<lambda>e. normalized (oe_from_santander e)) (fields_only_in_etl S E)"
  shows "distinct both \<and> distinct only_s3 \<and> distinct only_etl
    \<and> set both \<inter> set only_s3 = {} \<and> set both \<inter> set only_etl = {}
    \<and> set only_s3 \<inter> set only_etl = {}
    \<and> set both \<union> set only_s3 \<union> set only_etl = fst ` set S \<union> fst ` set E
    \<and> length both + length only_s3 + length only_etl = card (fst ` set S \<union> fst ` set E)"
proof -
  have b: "both = filter (\<lambda>k. k \<in> fst ` set E) (map fst S)"
    unfolding both_def using assms(1) by (rule names_in_both)
  have s: "only_s3 = filter (\<lambda>k. k \<notin> fst ` set E) (map fst S)"
    unfolding only_s3_def using assms(1) by (rule names_only_in_s3)
  have e: "only_etl = filter (\<lambda>k. k \<notin> fst ` set S) (map fst E)"
    unfolding only_etl_def using assms(2) by (rule names_only_in_etl)
  have d: "distinct both" "distinct only_s3" "distinct only_etl"
    using assms(3,4) by (simp_all add: b s e)
  have disj: "set both \<inter> set only_s3 = {}" "set both \<inter> set only_etl = {}"
    "set only_s3 \<inter> set only_etl = {}"
    by (auto simp: b s e)
  have un: "set both \<union> set only_s3 \<union> set only_etl = fst ` set S \<union> fst ` set E"
    by (auto simp: b s e)
  have "card (set both \<union> set only_s3 \<union> set only_etl)
      = card (set both) + card (set only_s3) + card (set only_etl)"
    using disj by (simp add: card_Un_disjoint Int_Un_distrib2)
  also have "\<dots> = length both + length only_s3 + length only_etl"
    using d by (simp add: distinct_card)
  finally show ?thesis
    using d disj un by simp
qed

lemma entries_named:
  assumes "keyed S" and "keyed E"
  shows "list_all (\<lambda>e. truthy (be_from_santander e)) (fields_in_both S E)
    \<and> list_all (\<lambda>e. truthy (oe_from_santander e)) (fields_only_in_s3 S E)
    \<and> list_all (\<lambda>e. truthy (oe_from_santander e)) (fields_only_in_etl S E)"
proof -
  have "truthy (be_from_santander e)" if "e \<in> set (fields_in_both S E)" for e
    using that assms(1)
    by (fastforce simp: fields_in_both_def keyed_def List.map_filter_def split: option.splits)
  moreover have "truthy (oe_from_santander e)" if "e \<in> set (fields_only_in_s3 S E)" for e
    using that assms(1)
    by (fastforce simp: fields_only_in_s3_def keyed_def only_entry_of_def)
  moreover have "truthy (oe_from_santander e)" if "e \<in> set (fields_only_in_etl S E)" for e
    using that assms(2)
    by (fastforce simp: fields_only_in_etl_def keyed_def only_entry_of_def)
  ultimately show ?thesis
    by (simp add: list_all_iff)
qed

subsection \<open>The comparison of one file and of all files\<close>

lemma compare_file_unfold:
  "compare_file file_name s3_file_data etl_file_data = Inr item \<Longrightarrow>
     ci_file_name item = file_name
     \<and> ci_has_s3_file item = file_bool s3_file_data
     \<and> ci_has_etl_file item = file_bool etl_file_data
     \<and> ci_s3_mappings_count item = mappings_count s3_file_data
     \<and> ci_etl_mappings_count item = mappings_count etl_file_data
     \<and> ci_s3_fields_count item = length (fold store (all_fields s3_file_data) [])
     \<and> ci_etl_fields_count item = length (fold store (all_fields etl_file_data) [])
     \<and> ci_fields_in_both item =
         fields_in_both (fold store (all_fields s3_file_data) [])
           (fold store (all_fields etl_file_data) [])
     \<and> ci_fields_only_in_s3 item =
         fields_only_in_s3 (fold store (all_fields s3_file_data) [])
           (fold store (all_fields etl_file_data) [])
     \<and> ci_fields_only_in_etl item =
         fields_only_in_etl (fold store (all_fields s3_file_data) [])
           (fold store (all_fields etl_file_data) [])
     \<and> ci_fields_in_both_count item = length (ci_fields_in_both item)
     \<and> ci_fields_only_in_s3_count item = length (ci_fields_only_in_s3 item)
     \<and> ci_fields_only_in_etl_count item = length (ci_fields_only_in_etl item)"
  by (auto simp: compare_file_def collect_file_fields_store)

lemma compare_file_returns:
  "\<exists>item. compare_file file_name s3_file_data etl_file_data = Inr item"
  by (simp add: compare_file_def collect_file_fields_store)

lemma compare_files_split:
  assumes "compare_files (k # keys) s3m etlm = Inr items"
  obtains first others where "compare_file k (map_of s3m k) (map_of etlm k) = Inr first"
    and "compare_files keys s3m etlm = Inr others" and "items = first # others"
  using assms by (auto simp: bind_eq_Inr)

lemma compare_files_member:
  "compare_files keys s3m etlm = Inr items \<Longrightarrow> item \<in> set items \<Longrightarrow>
     \<exists>k \<in> set keys. compare_file k (map_of s3m k) (map_of etlm k) = Inr item"
proof (induction keys arbitrary: items)
  case Nil
  then show ?case by simp
next
  case (Cons k keys)
  from Cons.prems(1) obtain first others where
    first: "compare_file k (map_of s3m k) (map_of etlm k) = Inr first"
    and others: "compare_files keys s3m etlm = Inr others"
    and items: "items = first # others"
    by (rule compare_files_split)
  show ?case
    using Cons.IH [OF others] Cons.prems(2) first items by auto
qed

lemma compare_files_names:
  "compare_files keys s3m etlm = Inr items \<Longrightarrow> map ci_file_name items = keys"
proof (induction keys arbitrary: items)
  case Nil
  then show ?case by simp
next
  case (Cons k keys)
  from Cons.prems(1) obtain first others where
    first: "compare_file k (map_of s3m k) (map_of etlm k) = Inr first"
    and others: "compare_files keys s3m etlm = Inr others"
    and items: "items = first # others"
    by (rule compare_files_split)
  show ?case
    using Cons.IH [OF others] compare_file_unfold [OF first] items by simp
qed

lemma files_by_name_keys:
  "files_by_name fs m = Inr m' \<Longrightarrow>
     fst ` set m' = fst ` set m \<union> (\<lambda>file_data. get (name file_data) '''') ` set fs"
proof (induction fs arbitrary: m)
  case Nil
  then show ?case by simp
next
  case (Cons f fs)
  from Cons.prems obtain k where k: "subscript (name f) = Inr k"
    and rest: "files_by_name fs (AList.update k f m) = Inr m'"
    by (auto simp: bind_eq_Inr)
  from Cons.IH [OF rest] subscript_Inr [OF k] show ?case
    by (auto simp: dom_update)
qed

lemma run_split:
  assumes "s3_compare_metadatas now s3_metadata etl_metadata = Inr out"
  obtains s3m etlm keys where
    "files_by_name (get_list (files s3_metadata)) [] = Inr s3m"
    and "files_by_name (get_list (files etl_metadata)) [] = Inr etlm"
    and "py_sorted (remdups (map fst s3m @ map fst etlm)) = Inr keys"
    and "compare_files keys s3m etlm = Inr (comparisons out)"
  using assms by (auto simp: s3_compare_metadatas_def bind_eq_Inr)

text \<open>
  C2. For every pair of documents on which the comparison returns, and every item of
  its \<^verbatim>\<open>comparisons\<close>: the normalised source names of \<^verbatim>\<open>fields_in_both\<close>,
  \<^verbatim>\<open>fields_only_in_s3\<close> and \<^verbatim>\<open>fields_only_in_etl\<close> have no repetition and are pairwise
  disjoint, together they are the union of the normalised field names of the S3 file
  and of the ETL file of that name, and the three lengths (which are the three counts)
  sum to the size of that union.
\<close>

theorem partition_completeness:
  assumes "s3_compare_metadatas now s3_metadata etl_metadata = Inr out"
    and "item \<in> set (comparisons out)"
  shows "distinct (both_names item) \<and> distinct (only_s3_names item)
    \<and> distinct (only_etl_names item)
    \<and> set (both_names item) \<inter> set (only_s3_names item) = {}
    \<and> set (both_names item) \<inter> set (only_etl_names item) = {}
    \<and> set (only_s3_names item) \<inter> set (only_etl_names item) = {}
    \<and> set (both_names item) \<union> set (only_s3_names item) \<union> set (only_etl_names item)
        = field_names (file_named s3_metadata (ci_file_name item))
          \<union> field_names (file_named etl_metadata (ci_file_name item))
    \<and> length (ci_fields_in_both item) + length (ci_fields_only_in_s3 item)
        + length (ci_fields_only_in_etl item)
        = card (field_names (file_named s3_metadata (ci_file_name item))
                \<union> field_names (file_named etl_metadata (ci_file_name item)))
    \<and> ci_fields_in_both_count item + ci_fields_only_in_s3_count item
        + ci_fields_only_in_etl_count item
        = card (field_names (file_named s3_metadata (ci_file_name item))
                \<union> field_names (file_named etl_metadata (ci_file_name item)))"
proof -
  from assms(1) obtain s3m etlm keys where
    s3m: "files_by_name (get_list (files s3_metadata)) [] = Inr s3m"
    and etlm: "files_by_name (get_list (files etl_metadata)) [] = Inr etlm"
    and items: "compare_files keys s3m etlm = Inr (comparisons out)"
    by (rule run_split)
  from compare_files_member [OF items assms(2)] obtain k where
    item: "compare_file k (map_of s3m k) (map_of etlm k) = Inr item"
    by auto
  note u = compare_file_unfold [OF item]
  let ?S = "fold store (all_fields (map_of s3m k)) []"
  let ?E = "fold store (all_fields (map_of etlm k)) []"
  have named: "file_named s3_metadata (ci_file_name item) = map_of s3m k"
    "file_named etl_metadata (ci_file_name item) = map_of etlm k"
    using s3m etlm u by (simp_all add: file_named_def)
  have keys: "fst ` set ?S = field_names (map_of s3m k)"
    "fst ` set ?E = field_names (map_of etlm k)"
    by (simp_all add: keys_fold_store field_names_def)
  have "keyed ?S" "keyed ?E" "distinct (map fst ?S)" "distinct (map fst ?E)"
    by (simp_all add: keyed_fold_store distinct_fold_store)
  from partition_lists [OF this] show ?thesis
    using u keys named
    by (simp add: both_names_def only_s3_names_def only_etl_names_def)
qed

lemma example_run:
  "s3_compare_metadatas ''now'' example_s3 example_etl = Inr example_comparison"
  by code_simp

theorem partition_completeness_witness:
  "s3_compare_metadatas ''now'' example_s3 example_etl = Inr example_comparison
   \<and> example_clients \<in> set (comparisons example_comparison)
   \<and> both_names example_clients = [''client_id'']
   \<and> only_s3_names example_clients = [''extra'']
   \<and> only_etl_names example_clients = [''name'']
   \<and> card (field_names (file_named example_s3 (ci_file_name example_clients))
           \<union> field_names (file_named example_etl (ci_file_name example_clients))) = 3"
proof -
  have mem: "example_clients \<in> set (comparisons example_comparison)"
    by (simp add: example_comparison_def)
  have names: "both_names example_clients = [''client_id'']"
    "only_s3_names example_clients = [''extra'']"
    "only_etl_names example_clients = [''name'']"
    by code_simp+
  have "length (ci_fields_in_both example_clients) + length (ci_fields_only_in_s3 example_clients)
      + length (ci_fields_only_in_etl example_clients) = 3"
    by (simp add: example_clients_def)
  with partition_completeness [OF example_run mem] example_run mem names show ?thesis
    by simp
qed

subsection \<open>File names\<close>

lemma map_filter_id_Some:
  "None \<notin> set ks \<Longrightarrow> map Some (List.map_filter id ks) = ks"
proof (induction ks)
  case Nil
  show ?case by simp
next
  case (Cons k ks)
  then show ?case by (cases k) simp_all
qed

lemma sorted_wrt_name_less_Some:
  "sorted_wrt name_less (map Some xs) \<longleftrightarrow> sorted_wrt (<) xs"
  by (simp add: sorted_wrt_map name_less_def)

lemma py_sorted_Inr:
  assumes "py_sorted ks = Inr keys" and "distinct ks"
  shows "set keys = set ks \<and> sorted_wrt name_less keys \<and> distinct keys"
proof (cases "None \<in> set ks")
  case True
  with assms(1) have len: "length ks < 2" and keys: "keys = ks"
    by (auto simp: py_sorted_def split: if_splits)
  from len have "sorted_wrt name_less ks"
    by (cases ks) (auto simp: less_Suc_eq_0_disj numeral_2_eq_2)
  with keys assms(2) show ?thesis by simp
next
  case False
  let ?xs = "List.map_filter id ks"
  from False assms(1) have keys: "keys = map Some (sort ?xs)"
    by (simp add: py_sorted_def)
  from False have ks: "map Some ?xs = ks"
    by (rule map_filter_id_Some)
  with assms(2) have dxs: "distinct ?xs"
    by (metis distinct_map)
  have "set keys = Some ` set ?xs"
    by (simp add: keys)
  also have "\<dots> = set (map Some ?xs)"
    by simp
  finally have set_eq: "set keys = set ks"
    by (simp only: ks)
  have "sorted_wrt (<) (sort ?xs)"
    using dxs by (simp add: strict_sorted_iff)
  then have "sorted_wrt name_less keys"
    by (simp add: keys sorted_wrt_name_less_Some)
  moreover have "distinct keys"
    using dxs by (simp add: keys distinct_map)
  ultimately show ?thesis using set_eq by simp
qed

lemma file_names_of_run:
  assumes "s3_compare_metadatas now s3_metadata etl_metadata = Inr out"
  shows "set (map ci_file_name (comparisons out)) = file_names s3_metadata \<union> file_names etl_metadata
    \<and> distinct (map ci_file_name (comparisons out))
    \<and> sorted_wrt name_less (map ci_file_name (comparisons out))
    \<and> (\<forall>item \<in> set (comparisons out).
         (ci_file_name item \<notin> file_names s3_metadata \<longrightarrow>
            \<not> ci_has_s3_file item \<and> ci_s3_mappings_count item = 0 \<and> ci_s3_fields_count item = 0
            \<and> ci_fields_in_both_count item = 0 \<and> ci_fields_only_in_s3_count item = 0)
       \<and> (ci_file_name item \<notin> file_names etl_metadata \<longrightarrow>
            \<not> ci_has_etl_file item \<and> ci_etl_mappings_count item = 0 \<and> ci_etl_fields_count item = 0
            \<and> ci_fields_in_both_count item = 0 \<and> ci_fields_only_in_etl_count item = 0))"
proof -
  from assms(1) obtain s3m etlm keys where
    s3m: "files_by_name (get_list (files s3_metadata)) [] = Inr s3m"
    and etlm: "files_by_name (get_list (files etl_metadata)) [] = Inr etlm"
    and keys: "py_sorted (remdups (map fst s3m @ map fst etlm)) = Inr keys"
    and items: "compare_files keys s3m etlm = Inr (comparisons out)"
    by (rule run_split)
  have k3: "fst ` set s3m = file_names s3_metadata"
    using files_by_name_keys [OF s3m] by (simp add: file_names_def)
  have ke: "fst ` set etlm = file_names etl_metadata"
    using files_by_name_keys [OF etlm] by (simp add: file_names_def)
  from py_sorted_Inr [OF keys] have
    set_keys: "set keys = file_names s3_metadata \<union> file_names etl_metadata"
    and sorted: "sorted_wrt name_less keys" and dist: "distinct keys"
    using k3 ke by simp_all
  have names: "map ci_file_name (comparisons out) = keys"
    using compare_files_names [OF items] by simp
  have absent: "(ci_file_name item \<notin> file_names s3_metadata \<longrightarrow>
            \<not> ci_has_s3_file item \<and> ci_s3_mappings_count item = 0 \<and> ci_s3_fields_count item = 0
            \<and> ci_fields_in_both_count item = 0 \<and> ci_fields_only_in_s3_count item = 0)
       \<and> (ci_file_name item \<notin> file_names etl_metadata \<longrightarrow>
            \<not> ci_has_etl_file item \<and> ci_etl_mappings_count item = 0 \<and> ci_etl_fields_count item = 0
            \<and> ci_fields_in_both_count item = 0 \<and> ci_fields_only_in_etl_count item = 0)"
    if "item \<in> set (comparisons out)" for item
  proof -
    from compare_files_member [OF items that] obtain k where
      item: "compare_file k (map_of s3m k) (map_of etlm k) = Inr item"
      by auto
    note u = compare_file_unfold [OF item]
    have n3: "map_of s3m k = None" if "k \<notin> file_names s3_metadata"
      using that k3 by (simp add: map_of_eq_None_iff)
    have ne: "map_of etlm k = None" if "k \<notin> file_names etl_metadata"
      using that ke by (simp add: map_of_eq_None_iff)
    have a3: "all_fields (map_of s3m k) = []" if "k \<notin> file_names s3_metadata"
      using n3 [OF that] by (simp add: all_fields_def)
    have ae: "all_fields (map_of etlm k) = []" if "k \<notin> file_names etl_metadata"
      using ne [OF that] by (simp add: all_fields_def)
    show ?thesis
      using u n3 ne a3 ae
      by (simp add: mappings_count_def fields_in_both_Nil1 fields_in_both_Nil2
          fields_only_in_s3_def fields_only_in_etl_def)
  qed
  show ?thesis
    using names set_keys sorted dist absent by auto
qed

lemma files_by_name_returns:
  "list_all (\<lambda>file_data. case name file_data of Str s \<Rightarrow> True | _ \<Rightarrow> False) fs \<Longrightarrow>
     \<exists>m'. files_by_name fs m = Inr m'"
proof (induction fs arbitrary: m)
  case Nil
  show ?case by simp
next
  case (Cons f fs)
  from Cons.prems obtain s where "name f = Str s"
    by (cases "name f") auto
  with Cons show ?case
    by simp
qed

lemma string_names_keys:
  assumes "string_names d" and "files_by_name (get_list (files d)) [] = Inr m"
  shows "None \<notin> fst ` set m"
proof -
  have "get (name f) '''' \<noteq> None" if "f \<in> set (get_list (files d))" for f
    using assms(1) that by (cases "name f") (auto simp: string_names_def list_all_iff)
  with files_by_name_keys [OF assms(2)] show ?thesis
    by force
qed

lemma compare_files_returns: "\<exists>items. compare_files keys s3m etlm = Inr items"
proof (induction keys)
  case Nil
  show ?case by simp
next
  case (Cons k keys)
  then show ?case
    using compare_file_returns [of k "map_of s3m k" "map_of etlm k"] by auto
qed

lemma s3_compare_returns:
  assumes "string_names s3_metadata" and "string_names etl_metadata"
  shows "\<exists>out. s3_compare_metadatas now s3_metadata etl_metadata = Inr out"
proof -
  from assms(1) obtain s3m where s3m: "files_by_name (get_list (files s3_metadata)) [] = Inr s3m"
    using files_by_name_returns [of "get_list (files s3_metadata)" "[]"]
    by (auto simp: string_names_def)
  from assms(2) obtain etlm where etlm: "files_by_name (get_list (files etl_metadata)) [] = Inr etlm"
    using files_by_name_returns [of "get_list (files etl_metadata)" "[]"]
    by (auto simp: string_names_def)
  let ?keys = "remdups (map fst s3m @ map fst etlm)"
  have "None \<notin> set ?keys"
    using string_names_keys [OF assms(1) s3m] string_names_keys [OF assms(2) etlm]
    by auto
  then have keys: "py_sorted ?keys = Inr (map Some (sort (List.map_filter id ?keys)))"
    by (simp add: py_sorted_def)
  from compare_files_returns obtain items where
    "compare_files (map Some (sort (List.map_filter id ?keys))) s3m etlm = Inr items"
    by blast
  with s3m etlm keys show ?thesis
    by (simp add: s3_compare_metadatas_def)
qed

text \<open>
  C6. The comparison returns on every pair of documents whose files all have a string
  name; and whenever it returns, the file names of \<^verbatim>\<open>comparisons\<close> are exactly the names
  of the files of the two documents, each once, in increasing order of Python's string
  comparison; an item whose name is in one document only has the flag of the other
  side false and its counts zero.
\<close>

theorem one_entry_per_file_sorted:
  "(string_names s3_metadata \<and> string_names etl_metadata \<longrightarrow>
      (\<exists>out. s3_compare_metadatas now s3_metadata etl_metadata = Inr out))
   \<and> (\<forall>out. s3_compare_metadatas now s3_metadata etl_metadata = Inr out \<longrightarrow>
         set (map ci_file_name (comparisons out))
           = file_names s3_metadata \<union> file_names etl_metadata
       \<and> distinct (map ci_file_name (comparisons out))
       \<and> sorted_wrt name_less (map ci_file_name (comparisons out))
       \<and> (\<forall>item \<in> set (comparisons out).
            (ci_file_name item \<notin> file_names s3_metadata \<longrightarrow>
               \<not> ci_has_s3_file item \<and> ci_s3_mappings_count item = 0
               \<and> ci_s3_fields_count item = 0
               \<and> ci_fields_in_both_count item = 0 \<and> ci_fields_only_in_s3_count item = 0)
          \<and> (ci_file_name item \<notin> file_names etl_metadata \<longrightarrow>
               \<not> ci_has_etl_file item \<and> ci_etl_mappings_count item = 0
               \<and> ci_etl_fields_count item = 0
               \<and> ci_fields_in_both_count item = 0 \<and> ci_fields_only_in_etl_count item = 0)))"
proof (intro conjI impI allI)
  assume "string_names s3_metadata \<and> string_names etl_metadata"
  then show "\<exists>out. s3_compare_metadatas now s3_metadata etl_metadata = Inr out"
    by (intro s3_compare_returns) simp_all
next
  fix out
  assume run: "s3_compare_metadatas now s3_metadata etl_metadata = Inr out"
  note facts = file_names_of_run [OF run]
  show "set (map ci_file_name (comparisons out))
      = file_names s3_metadata \<union> file_names etl_metadata"
    using facts by blast
  show "distinct (map ci_file_name (comparisons out))"
    using facts by blast
  show "sorted_wrt name_less (map ci_file_name (comparisons out))"
    using facts by blast
  show "\<forall>item \<in> set (comparisons out).
            (ci_file_name item \<notin> file_names s3_metadata \<longrightarrow>
               \<not> ci_has_s3_file item \<and> ci_s3_mappings_count item = 0
               \<and> ci_s3_fields_count item = 0
               \<and> ci_fields_in_both_count item = 0 \<and> ci_fields_only_in_s3_count item = 0)
          \<and> (ci_file_name item \<notin> file_names etl_metadata \<longrightarrow>
               \<not> ci_has_etl_file item \<and> ci_etl_mappings_count item = 0
               \<and> ci_etl_fields_count item = 0
               \<and> ci_fields_in_both_count item = 0 \<and> ci_fields_only_in_etl_count item = 0)"
    using facts by blast
qed

theorem one_entry_per_file_sorted_witness:
  "string_names example_s3 \<and> string_names example_etl
   \<and> s3_compare_metadatas ''now'' example_s3 example_etl = Inr example_comparison
   \<and> map ci_file_name (comparisons example_comparison)
       = [Some ''accounts'', Some ''clients'', Some ''orders'']
   \<and> set (map ci_file_name (comparisons example_comparison))
       = file_names example_s3 \<union> file_names example_etl
   \<and> distinct (map ci_file_name (comparisons example_comparison))
   \<and> sorted_wrt name_less (map ci_file_name (comparisons example_comparison))
   \<and> list_all (\<lambda>item.
         (ci_file_name item \<notin> file_names example_s3 \<longrightarrow>
            \<not> ci_has_s3_file item \<and> ci_s3_mappings_count item = 0 \<and> ci_s3_fields_count item = 0
            \<and> ci_fields_in_both_count item = 0 \<and> ci_fields_only_in_s3_count item = 0)
       \<and> (ci_file_name item \<notin> file_names example_etl \<longrightarrow>
            \<not> ci_has_etl_file item \<and> ci_etl_mappings_count item = 0 \<and> ci_etl_fields_count item = 0
            \<and> ci_fields_in_both_count item = 0 \<and> ci_fields_only_in_etl_count item = 0))
       (comparisons example_comparison)
   \<and> Some ''orders'' \<notin> file_names example_s3
   \<and> Some ''accounts'' \<notin> file_names example_etl"
proof -
  have strings: "string_names example_s3" "string_names example_etl"
    by code_simp+
  have names: "map ci_file_name (comparisons example_comparison)
       = [Some ''accounts'', Some ''clients'', Some ''orders'']"
    by (simp add: example_comparison_def example_clients_def)
  have absent: "Some ''orders'' \<notin> file_names example_s3"
    "Some ''accounts'' \<notin> file_names example_etl"
    by (simp_all add: file_names_def example_s3_def example_etl_def example_clients_file_def)
  from one_entry_per_file_sorted [of example_s3 example_etl "''now''"]
    example_run strings names absent
  show ?thesis
    unfolding list_all_iff by (intro conjI) blast+
qed

subsection \<open>Duplicate and missing names\<close>

text \<open>
  C7. The fields map of a file is built without raising, and under a normalised name
  \<open>k\<close> it holds the dict of the last field, in the order of the mappings and of their
  fields, that has a true \<^verbatim>\<open>from_santander\<close> normalising to \<open>k\<close>: a later field
  overwrites an earlier one of the same normalised name, also across mappings, and the
  earlier one leaves no trace (each name is a key once).
\<close>

theorem last_write_wins:
  "\<exists>fields_map. collect_file_fields file_data = Inr fields_map
     \<and> distinct (map fst fields_map)
     \<and> map_of fields_map k =
         (case filter (\<lambda>field. has_name field \<and> normalized_name field = k) (all_fields file_data) of
            [] \<Rightarrow> None
          | field # others \<Rightarrow> Some (field_info_of (last (field # others))))"
  by (simp add: collect_file_fields_store distinct_fold_store map_of_fold_store
      split: list.splits)

theorem last_write_wins_witness:
  "\<exists>fields_map. collect_file_fields (Some example_clients_file) = Inr fields_map
     \<and> map fst fields_map = [''client_id'', ''name'']
     \<and> map_of fields_map ''name'' =
         Some \<lparr>fi_from_santander = Some '' NAME'', fi_laborit = Some ''nome'',
               fi_type = Some ''text''\<rparr>"
proof -
  have filtered:
    "(case filter (\<lambda>field. has_name field \<and> normalized_name field = ''name'')
             (all_fields (Some example_clients_file)) of
        [] \<Rightarrow> None
      | field # others \<Rightarrow> Some (field_info_of (last (field # others))))
     = Some \<lparr>fi_from_santander = Some '' NAME'', fi_laborit = Some ''nome'',
             fi_type = Some ''text''\<rparr>"
    by code_simp
  have keys: "map_sum id (map fst) (collect_file_fields (Some example_clients_file))
      = Inr [''client_id'', ''name'']"
    by code_simp
  from last_write_wins [of "Some example_clients_file" "''name''"] obtain fields_map where
    "collect_file_fields (Some example_clients_file) = Inr fields_map"
    and "map_of fields_map ''name'' =
         (case filter (\<lambda>field. has_name field \<and> normalized_name field = ''name'')
                 (all_fields (Some example_clients_file)) of
            [] \<Rightarrow> None
          | field # others \<Rightarrow> Some (field_info_of (last (field # others))))"
    by blast
  with filtered keys show ?thesis
    by simp
qed

lemma named_fields_only_name: "name (named_fields_only f) = name f"
  by (simp add: named_fields_only_def)

lemma named_fields_only_bool: "file_bool (map_option named_fields_only a) = file_bool a"
  by (cases a) (simp_all add: named_fields_only_def)

lemma named_fields_only_count:
  "mappings_count (map_option named_fields_only a) = mappings_count a"
proof (cases a)
  case None
  then show ?thesis by (simp add: mappings_count_def)
next
  case (Some f)
  then show ?thesis
    by (cases "mappings f") (simp_all add: mappings_count_def named_fields_only_def)
qed

lemma named_fields_only_fields:
  "all_fields (map_option named_fields_only a) = filter has_name (all_fields a)"
proof (cases a)
  case None
  then show ?thesis by (simp add: all_fields_def)
next
  case (Some f)
  have "get_list (map_option (filter has_name) xs) = filter has_name (get_list xs)" for xs
    by (cases xs) simp_all
  then show ?thesis
    using Some
    by (cases "mappings f")
      (simp_all add: all_fields_def named_fields_only_def filter_concat comp_def)
qed

lemma compare_file_named_only:
  "compare_file k (map_option named_fields_only a) (map_option named_fields_only b) =
     compare_file k a b"
  by (simp add: compare_file_def collect_file_fields_store named_fields_only_bool
      named_fields_only_count named_fields_only_fields fold_store_filter)

lemma files_by_name_named_only:
  "files_by_name (map named_fields_only fs) (map (apsnd named_fields_only) m) =
     map_sum id (map (apsnd named_fields_only)) (files_by_name fs m)"
proof (induction fs arbitrary: m)
  case Nil
  show ?case by simp
next
  case (Cons f fs)
  show ?case
  proof (cases "subscript (name f)")
    case (Inl e)
    then show ?thesis by (simp add: named_fields_only_name)
  next
    case (Inr k)
    then show ?thesis
      using Cons.IH [of "AList.update k f m"]
      by (simp add: named_fields_only_name update_map_apsnd)
  qed
qed

lemma compare_files_named_only:
  "compare_files keys (map (apsnd named_fields_only) s3m) (map (apsnd named_fields_only) etlm) =
     compare_files keys s3m etlm"
  by (induction keys) (simp_all add: map_of_map_apsnd compare_file_named_only)

text \<open>
  C10. A field whose \<^verbatim>\<open>from_santander\<close> is missing or the empty string (or \<^verbatim>\<open>null\<close>) has
  no effect on \<^verbatim>\<open>comparisons\<close>: removing all such fields from both documents leaves
  every item, with its three lists and all its counts, as it is (and an exception as
  it is); and every entry of the three lists has a true \<^verbatim>\<open>from_santander\<close>.
\<close>

theorem unnamed_fields_excluded:
  "map_sum id comparisons
      (s3_compare_metadatas now (named_only s3_metadata) (named_only etl_metadata))
     = map_sum id comparisons (s3_compare_metadatas now s3_metadata etl_metadata)
   \<and> (\<forall>out. s3_compare_metadatas now s3_metadata etl_metadata = Inr out \<longrightarrow>
        (\<forall>item \<in> set (comparisons out).
           list_all (\<lambda>e. truthy (be_from_santander e)) (ci_fields_in_both item)
         \<and> list_all (\<lambda>e. truthy (oe_from_santander e)) (ci_fields_only_in_s3 item)
         \<and> list_all (\<lambda>e. truthy (oe_from_santander e)) (ci_fields_only_in_etl item)))"
proof
  have files: "get_list (files (named_only d)) = map named_fields_only (get_list (files d))" for d
    by (cases "files d") (simp_all add: named_only_def)
  have by_name: "files_by_name (get_list (files (named_only d))) [] =
      map_sum id (map (apsnd named_fields_only)) (files_by_name (get_list (files d)) [])" for d
    using files_by_name_named_only [of "get_list (files d)" "[]"] by (simp add: files)
  show "map_sum id comparisons
      (s3_compare_metadatas now (named_only s3_metadata) (named_only etl_metadata))
     = map_sum id comparisons (s3_compare_metadatas now s3_metadata etl_metadata)"
  proof (cases "files_by_name (get_list (files s3_metadata)) []")
    case (Inl e)
    then show ?thesis
      by (simp add: s3_compare_metadatas_def by_name)
  next
    case s3: (Inr s3m)
    show ?thesis
    proof (cases "files_by_name (get_list (files etl_metadata)) []")
      case (Inl e)
      then show ?thesis
        using s3 by (simp add: s3_compare_metadatas_def by_name)
    next
      case etl: (Inr etlm)
      show ?thesis
      proof (cases "py_sorted (remdups (map fst s3m @ map fst etlm))")
        case (Inl e)
        then show ?thesis
          using s3 etl by (simp add: s3_compare_metadatas_def by_name comp_def)
      next
        case keys: (Inr keys)
        show ?thesis
          using s3 etl keys
          by (cases "compare_files keys s3m etlm")
            (simp_all add: s3_compare_metadatas_def by_name comp_def compare_files_named_only)
      qed
    qed
  qed
next
  show "\<forall>out. s3_compare_metadatas now s3_metadata etl_metadata = Inr out \<longrightarrow>
        (\<forall>item \<in> set (comparisons out).
           list_all (\<lambda>e. truthy (be_from_santander e)) (ci_fields_in_both item)
         \<and> list_all (\<lambda>e. truthy (oe_from_santander e)) (ci_fields_only_in_s3 item)
         \<and> list_all (\<lambda>e. truthy (oe_from_santander e)) (ci_fields_only_in_etl item))"
  proof (intro allI impI ballI)
    fix out item
    assume run: "s3_compare_metadatas now s3_metadata etl_metadata = Inr out"
      and mem: "item \<in> set (comparisons out)"
    from run obtain s3m etlm keys where
      items: "compare_files keys s3m etlm = Inr (comparisons out)"
      by (rule run_split)
    from compare_files_member [OF items mem] obtain k where
      item: "compare_file k (map_of s3m k) (map_of etlm k) = Inr item"
      by auto
    from compare_file_unfold [OF item] entries_named [OF keyed_fold_store keyed_fold_store]
    show "list_all (\<lambda>e. truthy (be_from_santander e)) (ci_fields_in_both item)
         \<and> list_all (\<lambda>e. truthy (oe_from_santander e)) (ci_fields_only_in_s3 item)
         \<and> list_all (\<lambda>e. truthy (oe_from_santander e)) (ci_fields_only_in_etl item)"
      by simp
  qed
qed

theorem unnamed_fields_excluded_witness:
  "s3_compare_metadatas ''now'' example_s3 example_etl = Inr example_comparison
   \<and> length (all_fields (Some example_clients_file)) = 5
   \<and> length (all_fields (Some (named_fields_only example_clients_file))) = 3
   \<and> map_sum id comparisons
       (s3_compare_metadatas ''now'' (named_only example_s3) (named_only example_etl))
     = Inr (comparisons example_comparison)
   \<and> list_all (\<lambda>item.
        list_all (\<lambda>e. truthy (be_from_santander e)) (ci_fields_in_both item)
      \<and> list_all (\<lambda>e. truthy (oe_from_santander e)) (ci_fields_only_in_s3 item)
      \<and> list_all (\<lambda>e. truthy (oe_from_santander e)) (ci_fields_only_in_etl item))
       (comparisons example_comparison)"
proof -
  have lengths: "length (all_fields (Some example_clients_file)) = 5"
    "length (all_fields (Some (named_fields_only example_clients_file))) = 3"
    by code_simp+
  from unnamed_fields_excluded [of "''now''" example_s3 example_etl] example_run lengths
  show ?thesis
    by (simp add: list_all_iff)
qed

section \<open>ETL versus System\<close>

lemma normalized_unused_Cons:
  "normalized_unused (v # vs) =
     (case v of None \<Rightarrow> normalized_unused vs
      | Some s \<Rightarrow> insert (strip (lower s)) (normalized_unused vs))"
  by (cases v) (simp_all add: normalized_unused_def)

lemma unused_from_list_eq:
  "unused_from_list names (S, M) = Inr (S \<union> normalized_unused names, M)"
proof (induction names arbitrary: S)
  case Nil
  show ?case by (simp add: normalized_unused_def)
next
  case (Cons v vs)
  show ?case
    by (cases v) (simp_all add: Cons.IH normalized_unused_Cons)
qed

lemma unused_from_dict_eq:
  "map_sum id fst (unused_from_dict d (S, M)) = Inr (S \<union> normalized_unused (map snd d))"
proof (induction d arbitrary: S M)
  case Nil
  show ?case by (simp add: normalized_unused_def)
next
  case (Cons p d)
  obtain pt v where p: "p = (pt, v)" by (cases p)
  show ?case
  proof (cases v)
    case None
    with Cons.IH [of S M] show ?thesis
      by (simp add: p normalized_unused_Cons)
  next
    case (Some s)
    with Cons.IH [of "insert (strip (lower s)) S"
        "AList.update (strip (lower s)) \<lparr>portuguese_name = pt, english_name = Some s\<rparr> M"]
    show ?thesis
      by (simp add: p normalized_unused_Cons)
  qed
qed

lemma normalized_unused_filter:
  "normalized_unused (filter (\<lambda>v. v \<noteq> None) vs) = normalized_unused vs"
  by (induction vs) (simp_all add: normalized_unused_Cons normalized_unused_def split: option.splits)

text \<open>
  C5. For every usage record, \<^verbatim>\<open>_get_unused_columns\<close> returns, and returns the same set
  of normalised unused names, whether \<^verbatim>\<open>colunas_nao_utilizadas\<close> is a dict
  \<^verbatim>\<open>{portuguese_name: english_name}\<close> or the list of the non-null values of that dict.
\<close>

theorem unused_encodings_agree:
  "map_sum id fst
     (get_unused_columns (system_data\<lparr>colunas_nao_utilizadas := ColsDict unused_columns_dict\<rparr>))
     = Inr (normalized_unused (map snd unused_columns_dict))
   \<and> map_sum id fst
     (get_unused_columns
        (system_data\<lparr>colunas_nao_utilizadas :=
           ColsList (filter (\<lambda>en_name. en_name \<noteq> None) (map snd unused_columns_dict))\<rparr>))
     = Inr (normalized_unused (map snd unused_columns_dict))"
  using unused_from_dict_eq [of unused_columns_dict "{}" "[]"]
  by (simp add: get_unused_columns_def unused_from_list_eq normalized_unused_filter
      del: not_None_eq)

lemma sys_normalize_laborit:
  "sys_normalize_column_name (get (laborit field) '''') = Inr (laborit_normalized field)"
proof (cases "get (laborit field) ''''")
  case None
  then show ?thesis
    by (simp add: sys_normalize_column_name_def laborit_normalized_def)
next
  case (Some s)
  then show ?thesis
    by (cases "s = []") (simp_all add: sys_normalize_column_name_def laborit_normalized_def)
qed

lemma fields_usage_eq:
  "fields_usage fs U (acc, u, n) =
     Inr (acc @ map (usage_of U) fs,
          u + length (filter (\<lambda>f. laborit_normalized f \<notin> U) fs),
          n + length (filter (\<lambda>f. laborit_normalized f \<in> U) fs))"
proof (induction fs arbitrary: acc u n)
  case Nil
  show ?case by simp
next
  case (Cons f fs)
  show ?case
    by (simp add: sys_normalize_laborit Cons.IH usage_of_def Let_def)
qed

lemma get_unused_columns_returns: "\<exists>unused m. get_unused_columns system_data = Inr (unused, m)"
proof (cases "colunas_nao_utilizadas system_data")
  case (ColsDict d)
  from unused_from_dict_eq [of d "{}" "[]"] show ?thesis
    by (cases "unused_from_dict d ({}, [])") (auto simp: get_unused_columns_def ColsDict)
qed (simp_all add: get_unused_columns_def unused_from_list_eq)

lemma get_unused_for:
  "\<exists>m. get_unused_columns (system_data_for system_map (get (table mapping) ''''))
        = Inr (unused_set_for system_map mapping, m)"
  using get_unused_columns_returns [of "system_data_for system_map (get (table mapping) '''')"]
  by (auto simp: unused_set_for_def)

lemma compare_mapping_eq:
  "\<exists>mc. compare_mapping system_map mapping = Inr mc
     \<and> mc_map mc = get (map_name mapping) ''''
     \<and> mc_table mc = get (table mapping) ''''
     \<and> mc_has_system_data mc = item_bool (system_data_for system_map (get (table mapping) ''''))
     \<and> mc_fields mc = map (usage_of (unused_set_for system_map mapping)) (get_list (mfields mapping))
     \<and> st_total_fields (mc_statistics mc) = length (get_list (mfields mapping))
     \<and> st_used_count (mc_statistics mc) =
         length (filter (\<lambda>f. laborit_normalized f \<notin> unused_set_for system_map mapping)
                   (get_list (mfields mapping)))
     \<and> st_unused_count (mc_statistics mc) =
         length (filter (\<lambda>f. laborit_normalized f \<in> unused_set_for system_map mapping)
                   (get_list (mfields mapping)))
     \<and> mc_system_unused_columns_count mc = card (unused_set_for system_map mapping)"
proof -
  from get_unused_for obtain m where
    "get_unused_columns (system_data_for system_map (get (table mapping) ''''))
       = Inr (unused_set_for system_map mapping, m)"
    by blast
  then show ?thesis
    by (simp add: compare_mapping_def fields_usage_eq)
qed

lemma compare_mappings_all2:
  "\<exists>mcs. compare_mappings system_map ms = Inr mcs
     \<and> list_all2 (\<lambda>mapping mc. compare_mapping system_map mapping = Inr mc) ms mcs"
proof (induction ms)
  case Nil
  show ?case by simp
next
  case (Cons mapping ms)
  from compare_mapping_eq [of system_map mapping] obtain mc where
    "compare_mapping system_map mapping = Inr mc"
    by blast
  with Cons.IH show ?case
    by auto
qed

lemma compare_etl_files_all2:
  "\<exists>fcs. compare_etl_files system_map fs = Inr fcs
     \<and> list_all2 (\<lambda>etl_file fc.
           fc_file_name fc = get (name etl_file) ''''
         \<and> list_all2 (\<lambda>mapping mc. compare_mapping system_map mapping = Inr mc)
             (get_list (mappings etl_file)) (fc_mappings fc)) fs fcs"
proof (induction fs)
  case Nil
  show ?case by simp
next
  case (Cons etl_file fs)
  from compare_mappings_all2 [of system_map "get_list (mappings etl_file)"] obtain mcs where
    "compare_mappings system_map (get_list (mappings etl_file)) = Inr mcs"
    "list_all2 (\<lambda>mapping mc. compare_mapping system_map mapping = Inr mc)
       (get_list (mappings etl_file)) mcs"
    by blast
  with Cons.IH show ?case
    by auto
qed

lemma sys_compare_all2:
  "\<exists>out. sys_compare_metadatas now system_file etl_metadata system_metadata = Inr out
     \<and> list_all2 (\<lambda>etl_file fc.
           fc_file_name fc = get (name etl_file) ''''
         \<and> list_all2 (\<lambda>mapping mc.
               compare_mapping (load_system_metadata system_file) mapping = Inr mc)
             (get_list (mappings etl_file)) (fc_mappings fc))
         (get_list (files etl_metadata)) (sc_files out)"
proof -
  from compare_etl_files_all2
    [of "load_system_metadata system_file" "get_list (files etl_metadata)"]
  obtain fcs where
    "compare_etl_files (load_system_metadata system_file) (get_list (files etl_metadata)) = Inr fcs"
    "list_all2 (\<lambda>etl_file fc.
           fc_file_name fc = get (name etl_file) ''''
         \<and> list_all2 (\<lambda>mapping mc.
               compare_mapping (load_system_metadata system_file) mapping = Inr mc)
             (get_list (mappings etl_file)) (fc_mappings fc))
         (get_list (files etl_metadata)) fcs"
    by blast
  then show ?thesis
    by (simp add: sys_compare_metadatas_def)
qed

lemma usage_of_flags:
  "list_all2 (\<lambda>field out_field. fu_is_used_in_system out_field = (laborit_normalized field \<notin> U))
     fs (map (usage_of U) fs)"
  by (simp add: list_all2_map2 list_all2_same usage_of_def)

lemma usage_of_used:
  "length (filter fu_is_used_in_system (map (usage_of U) fs)) =
     length (filter (\<lambda>f. laborit_normalized f \<notin> U) fs)"
  by (simp add: filter_map comp_def usage_of_def)

lemma usage_of_unused:
  "length (filter (\<lambda>f. \<not> fu_is_used_in_system f) (map (usage_of U) fs)) =
     length (filter (\<lambda>f. laborit_normalized f \<in> U) fs)"
  by (simp add: filter_map comp_def usage_of_def)

lemma usage_flags_by_code_set:
  "\<exists>out. sys_compare_metadatas now system_file etl_metadata system_metadata = Inr out
     \<and> list_all2 (\<lambda>etl_file fc.
         list_all2 (\<lambda>mapping mc.
             list_all2 (\<lambda>field out_field.
                 fu_is_used_in_system out_field =
                   (laborit_normalized field
                      \<notin> unused_set_for (load_system_metadata system_file) mapping))
               (get_list (mfields mapping)) (mc_fields mc)
           \<and> st_used_count (mc_statistics mc) = length (filter fu_is_used_in_system (mc_fields mc))
           \<and> st_unused_count (mc_statistics mc)
               = length (filter (\<lambda>f. \<not> fu_is_used_in_system f) (mc_fields mc))
           \<and> st_total_fields (mc_statistics mc) = length (mc_fields mc)
           \<and> st_used_count (mc_statistics mc) + st_unused_count (mc_statistics mc)
               = st_total_fields (mc_statistics mc))
           (get_list (mappings etl_file)) (fc_mappings fc))
         (get_list (files etl_metadata)) (sc_files out)"
proof -
  let ?sm = "load_system_metadata system_file"
  have step: "list_all2 (\<lambda>field out_field.
                 fu_is_used_in_system out_field =
                   (laborit_normalized field \<notin> unused_set_for ?sm mapping))
               (get_list (mfields mapping)) (mc_fields mc)
           \<and> st_used_count (mc_statistics mc) = length (filter fu_is_used_in_system (mc_fields mc))
           \<and> st_unused_count (mc_statistics mc)
               = length (filter (\<lambda>f. \<not> fu_is_used_in_system f) (mc_fields mc))
           \<and> st_total_fields (mc_statistics mc) = length (mc_fields mc)
           \<and> st_used_count (mc_statistics mc) + st_unused_count (mc_statistics mc)
               = st_total_fields (mc_statistics mc)"
    if "compare_mapping ?sm mapping = Inr mc" for mapping mc
  proof -
    from compare_mapping_eq [of ?sm mapping] that have
      f: "mc_fields mc = map (usage_of (unused_set_for ?sm mapping)) (get_list (mfields mapping))"
      and t: "st_total_fields (mc_statistics mc) = length (get_list (mfields mapping))"
      and u: "st_used_count (mc_statistics mc) =
         length (filter (\<lambda>f. laborit_normalized f \<notin> unused_set_for ?sm mapping)
                   (get_list (mfields mapping)))"
      and n: "st_unused_count (mc_statistics mc) =
         length (filter (\<lambda>f. laborit_normalized f \<in> unused_set_for ?sm mapping)
                   (get_list (mfields mapping)))"
      by auto
    have sum: "length (filter (\<lambda>f. laborit_normalized f \<notin> unused_set_for ?sm mapping)
                   (get_list (mfields mapping)))
        + length (filter (\<lambda>f. laborit_normalized f \<in> unused_set_for ?sm mapping)
                   (get_list (mfields mapping))) = length (get_list (mfields mapping))"
      using sum_length_filter_compl
        [of "\<lambda>f. laborit_normalized f \<in> unused_set_for ?sm mapping" "get_list (mfields mapping)"]
      by simp
    show ?thesis
      unfolding f t u n usage_of_used usage_of_unused
      using usage_of_flags sum by simp
  qed
  from sys_compare_all2 [of now system_file etl_metadata system_metadata] obtain out where
    run: "sys_compare_metadatas now system_file etl_metadata system_metadata = Inr out"
    and all2: "list_all2 (\<lambda>etl_file fc.
           fc_file_name fc = get (name etl_file) ''''
         \<and> list_all2 (\<lambda>mapping mc. compare_mapping ?sm mapping = Inr mc)
             (get_list (mappings etl_file)) (fc_mappings fc))
         (get_list (files etl_metadata)) (sc_files out)"
    by blast
  have "list_all2 (\<lambda>etl_file fc.
         list_all2 (\<lambda>mapping mc.
             list_all2 (\<lambda>field out_field.
                 fu_is_used_in_system out_field =
                   (laborit_normalized field \<notin> unused_set_for ?sm mapping))
               (get_list (mfields mapping)) (mc_fields mc)
           \<and> st_used_count (mc_statistics mc) = length (filter fu_is_used_in_system (mc_fields mc))
           \<and> st_unused_count (mc_statistics mc)
               = length (filter (\<lambda>f. \<not> fu_is_used_in_system f) (mc_fields mc))
           \<and> st_total_fields (mc_statistics mc) = length (mc_fields mc)
           \<and> st_used_count (mc_statistics mc) + st_unused_count (mc_statistics mc)
               = st_total_fields (mc_statistics mc))
           (get_list (mappings etl_file)) (fc_mappings fc))
         (get_list (files etl_metadata)) (sc_files out)"
    using all2
  proof (rule list_all2_mono)
    fix etl_file fc
    assume "fc_file_name fc = get (name etl_file) ''''
         \<and> list_all2 (\<lambda>mapping mc. compare_mapping ?sm mapping = Inr mc)
             (get_list (mappings etl_file)) (fc_mappings fc)"
    then have "list_all2 (\<lambda>mapping mc. compare_mapping ?sm mapping = Inr mc)
             (get_list (mappings etl_file)) (fc_mappings fc)"
      by simp
    then show "list_all2 (\<lambda>mapping mc.
             list_all2 (\<lambda>field out_field.
                 fu_is_used_in_system out_field =
                   (laborit_normalized field \<notin> unused_set_for ?sm mapping))
               (get_list (mfields mapping)) (mc_fields mc)
           \<and> st_used_count (mc_statistics mc) = length (filter fu_is_used_in_system (mc_fields mc))
           \<and> st_unused_count (mc_statistics mc)
               = length (filter (\<lambda>f. \<not> fu_is_used_in_system f) (mc_fields mc))
           \<and> st_total_fields (mc_statistics mc) = length (mc_fields mc)
           \<and> st_used_count (mc_statistics mc) + st_unused_count (mc_statistics mc)
               = st_total_fields (mc_statistics mc))
           (get_list (mappings etl_file)) (fc_mappings fc)"
      by (rule list_all2_mono) (rule step)
  qed
  with run show ?thesis by blast
qed

lemma get_unused_columns_empty: "get_unused_columns empty_item = Inr ({}, [])"
  by (simp add: get_unused_columns_def empty_item_def)

subsection \<open>The unused set, from the system document\<close>

lemma map_of_system_map_of:
  "map_of (system_map_of items m) k =
     (case filter (\<lambda>item. truthy (get (tabela item) '''') \<and> get (tabela item) '''' = k) items of
        [] \<Rightarrow> map_of m k
      | item # others \<Rightarrow> Some (last (item # others)))"
proof (induction items arbitrary: m)
  case Nil
  show ?case by simp
next
  case (Cons item items)
  show ?case
    by (auto simp: Cons.IH update_conv' split: list.splits)
qed

lemma system_data_for_record:
  "system_data_for (load_system_metadata system_file) table_name =
     (case usage_record system_file table_name of None \<Rightarrow> empty_item | Some item \<Rightarrow> item)"
  by (simp add: system_data_for_def load_system_metadata_def map_of_system_map_of
      usage_record_def split: list.splits)

lemma get_unused_columns_names:
  "map_sum id fst (get_unused_columns item) = Inr (unused_names (Some item))"
proof (cases "colunas_nao_utilizadas item")
  case (ColsDict d)
  with unused_from_dict_eq [of d "{}" "[]"] show ?thesis
    by (simp add: get_unused_columns_def unused_names_def)
qed (simp_all add: get_unused_columns_def unused_names_def unused_from_list_eq)

lemma unused_set_for_eq:
  "unused_set_for (load_system_metadata system_file) mapping =
     unused_names (usage_record system_file (get (table mapping) ''''))"
proof (cases "usage_record system_file (get (table mapping) '''')")
  case None
  then show ?thesis
    by (simp add: unused_set_for_def system_data_for_record get_unused_columns_empty
        unused_names_def)
next
  case (Some item)
  from get_unused_columns_names [of item] obtain m where
    "get_unused_columns item = Inr (unused_names (Some item), m)"
    by (cases "get_unused_columns item") auto
  with Some show ?thesis
    by (simp add: unused_set_for_def system_data_for_record)
qed

text \<open>
  C3. The usage comparison returns on every input, its output has the files, mappings
  and fields of the ETL document position by position, and for every mapping: each
  field's \<^verbatim>\<open>is_used_in_system\<close> is the negation of the membership of its normalised
  \<^verbatim>\<open>laborit\<close> (lower-cased and stripped, \<^verbatim>\<open>''\<close> for \<^verbatim>\<open>null\<close>) in the unused set of the
  usage record of the mapping's table (the normalised non-null names of the record's
  dict values or list, empty without a record), \<^verbatim>\<open>used_count\<close> counts the fields with
  the flag, \<^verbatim>\<open>unused_count\<close> those without, and
  \<^verbatim>\<open>used_count + unused_count = total_fields\<close>.
\<close>

theorem usage_flag_totality:
  "\<exists>out. sys_compare_metadatas now system_file etl_metadata system_metadata = Inr out
     \<and> list_all2 (\<lambda>etl_file fc.
         list_all2 (\<lambda>mapping mc.
             list_all2 (\<lambda>field out_field.
                 fu_is_used_in_system out_field =
                   (laborit_normalized field
                      \<notin> unused_names (usage_record system_file (get (table mapping) ''''))))
               (get_list (mfields mapping)) (mc_fields mc)
           \<and> st_used_count (mc_statistics mc) = length (filter fu_is_used_in_system (mc_fields mc))
           \<and> st_unused_count (mc_statistics mc)
               = length (filter (\<lambda>f. \<not> fu_is_used_in_system f) (mc_fields mc))
           \<and> st_total_fields (mc_statistics mc) = length (mc_fields mc)
           \<and> st_used_count (mc_statistics mc) + st_unused_count (mc_statistics mc)
               = st_total_fields (mc_statistics mc))
           (get_list (mappings etl_file)) (fc_mappings fc))
         (get_list (files etl_metadata)) (sc_files out)"
  using usage_flags_by_code_set [of now system_file etl_metadata system_metadata]
  unfolding unused_set_for_eq .


lemma example_usage_run:
  "sys_compare_metadatas ''now'' (Some example_system) example_etl (Some example_system)
     = Inr example_usage"
  by code_simp

lemma no_record:
  assumes "map_of system_map (get (table mapping) '''') = None"
    and "compare_mapping system_map mapping = Inr mc"
  shows "\<not> mc_has_system_data mc
    \<and> list_all fu_is_used_in_system (mc_fields mc)
    \<and> length (mc_fields mc) = length (get_list (mfields mapping))
    \<and> st_total_fields (mc_statistics mc) = length (mc_fields mc)
    \<and> st_used_count (mc_statistics mc) = st_total_fields (mc_statistics mc)
    \<and> st_unused_count (mc_statistics mc) = 0"
proof -
  from assms(1) have data: "system_data_for system_map (get (table mapping) '''') = empty_item"
    by (simp add: system_data_for_def)
  then have unused: "unused_set_for system_map mapping = {}"
    by (simp add: unused_set_for_def get_unused_columns_empty)
  have "\<not> item_bool empty_item"
    by (simp add: item_bool_def empty_item_def)
  with compare_mapping_eq [of system_map mapping] assms(2) data unused show ?thesis
    by (auto simp: list_all_iff usage_of_def)
qed

text \<open>
  C1, as the code has it. For every mapping whose table has no record in the system
  map, the usage comparison gives \<^verbatim>\<open>has_system_data = false\<close>, and every field of the
  mapping has \<^verbatim>\<open>is_used_in_system = true\<close>: the unused set of a missing record is empty
  and a field is used when its name is not in that set. So \<^verbatim>\<open>used_count\<close> is
  \<^verbatim>\<open>total_fields\<close> and \<^verbatim>\<open>unused_count\<close> is zero.
\<close>

theorem no_usage_record_counts_as_used:
  "\<exists>out. sys_compare_metadatas now system_file etl_metadata system_metadata = Inr out
     \<and> list_all2 (\<lambda>etl_file fc.
         list_all2 (\<lambda>mapping mc.
             map_of (load_system_metadata system_file) (get (table mapping) '''') = None \<longrightarrow>
               \<not> mc_has_system_data mc
             \<and> list_all fu_is_used_in_system (mc_fields mc)
             \<and> length (mc_fields mc) = length (get_list (mfields mapping))
             \<and> st_total_fields (mc_statistics mc) = length (mc_fields mc)
             \<and> st_used_count (mc_statistics mc) = st_total_fields (mc_statistics mc)
             \<and> st_unused_count (mc_statistics mc) = 0)
           (get_list (mappings etl_file)) (fc_mappings fc))
         (get_list (files etl_metadata)) (sc_files out)"
proof -
  let ?sm = "load_system_metadata system_file"
  from sys_compare_all2 [of now system_file etl_metadata system_metadata] obtain out where
    run: "sys_compare_metadatas now system_file etl_metadata system_metadata = Inr out"
    and all2: "list_all2 (\<lambda>etl_file fc.
           fc_file_name fc = get (name etl_file) ''''
         \<and> list_all2 (\<lambda>mapping mc. compare_mapping ?sm mapping = Inr mc)
             (get_list (mappings etl_file)) (fc_mappings fc))
         (get_list (files etl_metadata)) (sc_files out)"
    by blast
  have "list_all2 (\<lambda>etl_file fc.
         list_all2 (\<lambda>mapping mc.
             map_of ?sm (get (table mapping) '''') = None \<longrightarrow>
               \<not> mc_has_system_data mc
             \<and> list_all fu_is_used_in_system (mc_fields mc)
             \<and> length (mc_fields mc) = length (get_list (mfields mapping))
             \<and> st_total_fields (mc_statistics mc) = length (mc_fields mc)
             \<and> st_used_count (mc_statistics mc) = st_total_fields (mc_statistics mc)
             \<and> st_unused_count (mc_statistics mc) = 0)
           (get_list (mappings etl_file)) (fc_mappings fc))
         (get_list (files etl_metadata)) (sc_files out)"
    using all2
  proof (rule list_all2_mono)
    fix etl_file fc
    assume "fc_file_name fc = get (name etl_file) ''''
         \<and> list_all2 (\<lambda>mapping mc. compare_mapping ?sm mapping = Inr mc)
             (get_list (mappings etl_file)) (fc_mappings fc)"
    then have "list_all2 (\<lambda>mapping mc. compare_mapping ?sm mapping = Inr mc)
             (get_list (mappings etl_file)) (fc_mappings fc)"
      by simp
    then show "list_all2 (\<lambda>mapping mc.
             map_of ?sm (get (table mapping) '''') = None \<longrightarrow>
               \<not> mc_has_system_data mc
             \<and> list_all fu_is_used_in_system (mc_fields mc)
             \<and> length (mc_fields mc) = length (get_list (mfields mapping))
             \<and> st_total_fields (mc_statistics mc) = length (mc_fields mc)
             \<and> st_used_count (mc_statistics mc) = st_total_fields (mc_statistics mc)
             \<and> st_unused_count (mc_statistics mc) = 0)
           (get_list (mappings etl_file)) (fc_mappings fc)"
      by (rule list_all2_mono) (use no_record in blast)
  qed
  with run show ?thesis by blast
qed

text \<open>
  C1 as stated fails: the table \<^verbatim>\<open>tb_orders\<close> of the example has no usage record, and
  its one field comes out used, with \<^verbatim>\<open>unused_count = 0\<close> and \<^verbatim>\<open>total_fields = 1\<close>.
\<close>

theorem no_usage_record_counterexample:
  "sys_compare_metadatas ''now'' (Some example_system) example_etl (Some example_system)
     = Inr example_usage
   \<and> map_of (load_system_metadata (Some example_system)) (Some ''tb_orders'') = None
   \<and> sc_files example_usage ! 1 = \<lparr>fc_file_name = Some ''orders'', fc_mappings = [example_orders_usage]\<rparr>
   \<and> mc_table example_orders_usage = Some ''tb_orders''
   \<and> \<not> mc_has_system_data example_orders_usage
   \<and> map fu_is_used_in_system (mc_fields example_orders_usage) = [True]
   \<and> st_total_fields (mc_statistics example_orders_usage) = 1
   \<and> st_unused_count (mc_statistics example_orders_usage) = 0"
proof -
  have "map_of (load_system_metadata (Some example_system)) (Some ''tb_orders'') = None"
    by code_simp
  with example_usage_run show ?thesis
    by (simp add: example_usage_def example_orders_usage_def)
qed

theorem no_usage_record_counts_as_used_witness:
  "sys_compare_metadatas ''now'' (Some example_system) example_etl (Some example_system)
     = Inr example_usage
   \<and> map_of (load_system_metadata (Some example_system)) (Some ''tb_orders'') = None
   \<and> list_all2 (\<lambda>etl_file fc.
         list_all2 (\<lambda>mapping mc.
             map_of (load_system_metadata (Some example_system)) (get (table mapping) '''') = None \<longrightarrow>
               \<not> mc_has_system_data mc
             \<and> list_all fu_is_used_in_system (mc_fields mc)
             \<and> length (mc_fields mc) = length (get_list (mfields mapping))
             \<and> st_total_fields (mc_statistics mc) = length (mc_fields mc)
             \<and> st_used_count (mc_statistics mc) = st_total_fields (mc_statistics mc)
             \<and> st_unused_count (mc_statistics mc) = 0)
           (get_list (mappings etl_file)) (fc_mappings fc))
         (get_list (files example_etl)) (sc_files example_usage)"
proof -
  have none: "map_of (load_system_metadata (Some example_system)) (Some ''tb_orders'') = None"
    by code_simp
  from no_usage_record_counts_as_used [of "''now''" "Some example_system" example_etl "Some example_system"]
    example_usage_run none
  show ?thesis
    by auto
qed

lemma mixed_case_run:
  "sys_compare_metadatas ''now'' (Some mixed_case_system) mixed_case_etl (Some mixed_case_system)
     = Inr mixed_case_usage"
  by code_simp

theorem usage_flag_totality_witness:
  "sys_compare_metadatas ''now'' (Some mixed_case_system) mixed_case_etl (Some mixed_case_system)
     = Inr mixed_case_usage
   \<and> map laborit_normalized
       (concat (map (\<lambda>mapping. get_list (mfields mapping))
          (concat (map (\<lambda>etl_file. get_list (mappings etl_file)) (get_list (files mixed_case_etl))))))
       = [''client_name'', ''client_name'', '''', ''client_id'', '''', ''order_id'', ''total'']
   \<and> unused_names (usage_record (Some mixed_case_system) (Some ''tb_clients'')) = {''client_name''}
   \<and> unused_names (usage_record (Some mixed_case_system) (Some ''tb_orders'')) = {''order_id''}
   \<and> map (\<lambda>mc. map fu_is_used_in_system (mc_fields mc))
       (concat (map fc_mappings (sc_files mixed_case_usage)))
       = [[False, False, True, True, True], [False, True]]
   \<and> list_all2 (\<lambda>etl_file fc.
         list_all2 (\<lambda>mapping mc.
             list_all2 (\<lambda>field out_field.
                 fu_is_used_in_system out_field =
                   (laborit_normalized field
                      \<notin> unused_names (usage_record (Some mixed_case_system)
                           (get (table mapping) ''''))))
               (get_list (mfields mapping)) (mc_fields mc)
           \<and> st_used_count (mc_statistics mc) = length (filter fu_is_used_in_system (mc_fields mc))
           \<and> st_unused_count (mc_statistics mc)
               = length (filter (\<lambda>f. \<not> fu_is_used_in_system f) (mc_fields mc))
           \<and> st_total_fields (mc_statistics mc) = length (mc_fields mc)
           \<and> st_used_count (mc_statistics mc) + st_unused_count (mc_statistics mc)
               = st_total_fields (mc_statistics mc))
           (get_list (mappings etl_file)) (fc_mappings fc))
         (get_list (files mixed_case_etl)) (sc_files mixed_case_usage)"
proof -
  have names: "map laborit_normalized
       (concat (map (\<lambda>mapping. get_list (mfields mapping))
          (concat (map (\<lambda>etl_file. get_list (mappings etl_file)) (get_list (files mixed_case_etl))))))
       = [''client_name'', ''client_name'', '''', ''client_id'', '''', ''order_id'', ''total'']"
    by code_simp
  have sets: "unused_names (usage_record (Some mixed_case_system) (Some ''tb_clients''))
      = {''client_name''}"
    "unused_names (usage_record (Some mixed_case_system) (Some ''tb_orders'')) = {''order_id''}"
    by code_simp+
  have flags: "map (\<lambda>mc. map fu_is_used_in_system (mc_fields mc))
       (concat (map fc_mappings (sc_files mixed_case_usage)))
       = [[False, False, True, True, True], [False, True]]"
    by (simp add: mixed_case_usage_def)
  from usage_flag_totality
    [of "''now''" "Some mixed_case_system" mixed_case_etl "Some mixed_case_system"]
    mixed_case_run
  have "list_all2 (\<lambda>etl_file fc.
         list_all2 (\<lambda>mapping mc.
             list_all2 (\<lambda>field out_field.
                 fu_is_used_in_system out_field =
                   (laborit_normalized field
                      \<notin> unused_names (usage_record (Some mixed_case_system)
                           (get (table mapping) ''''))))
               (get_list (mfields mapping)) (mc_fields mc)
           \<and> st_used_count (mc_statistics mc) = length (filter fu_is_used_in_system (mc_fields mc))
           \<and> st_unused_count (mc_statistics mc)
               = length (filter (\<lambda>f. \<not> fu_is_used_in_system f) (mc_fields mc))
           \<and> st_total_fields (mc_statistics mc) = length (mc_fields mc)
           \<and> st_used_count (mc_statistics mc) + st_unused_count (mc_statistics mc)
               = st_total_fields (mc_statistics mc))
           (get_list (mappings etl_file)) (fc_mappings fc))
         (get_list (files mixed_case_etl)) (sc_files mixed_case_usage)"
    by auto
  with mixed_case_run names sets flags show ?thesis
    by blast
qed

theorem unused_encodings_agree_witness:
  "map_sum id fst
     (get_unused_columns
        \<lparr>tabela = Str ''tb_clients'',
         colunas_nao_utilizadas = ColsDict [(''Nome Cliente'', Some ''client_name''), (''Obs'', None)]\<rparr>)
     = Inr {''client_name''}
   \<and> map_sum id fst
     (get_unused_columns
        \<lparr>tabela = Str ''tb_clients'', colunas_nao_utilizadas = ColsList [Some ''client_name'']\<rparr>)
     = Inr {''client_name''}"
proof -
  have "normalized_unused (map snd [(''Nome Cliente'', Some ''client_name''), (''Obs'', None)])
      = {''client_name''}"
    by code_simp
  with unused_encodings_agree [where system_data = "\<lparr>tabela = Str ''tb_clients'', colunas_nao_utilizadas = ColsMissing\<rparr>"
      and unused_columns_dict = "[(''Nome Cliente'', Some ''client_name''), (''Obs'', None)]"]
  show ?thesis
    by simp
qed

section \<open>Consolidation\<close>

lemma consolidate_fields_all2:
  "consolidate_fields fs c m = Inr cfs \<Longrightarrow>
     list_all2 (\<lambda>field cf.
         cf_from_santander cf = get (from_santander field) ''''
       \<and> cf_laborit cf = get (laborit field) ''''
       \<and> cf_type cf = get (field_type field) ''''
       \<and> check_field_in_s3 (get (from_santander field) '''') c = Inr (cf_exists_in_s3 cf)) fs cfs"
proof (induction fs arbitrary: cfs)
  case Nil
  then show ?case by simp
next
  case (Cons f fs)
  from Cons.prems obtain e n others where
    e: "check_field_in_s3 (get (from_santander f) '''') c = Inr e"
    and n: "consolidated_normalize_name (get (from_santander f) '''') = Inr n"
    and others: "consolidate_fields fs c m = Inr others"
    and cfs: "cfs =
       \<lparr>cf_from_santander = get (from_santander f) '''',
        cf_laborit = get (laborit f) '''',
        cf_type = get (field_type f) '''',
        cf_exists_in_s3 = e,
        cf_is_used_in_system =
          (case map_of m n of None \<Rightarrow> False | Some system_field \<Rightarrow> fu_is_used_in_system system_field)\<rparr>
       # others"
    by (auto simp: bind_eq_Inr)
  from Cons.IH [OF others] e show ?case
    by (simp add: cfs)
qed

lemma consolidate_mapping_Inr:
  assumes "consolidate_mapping h c sfc mapping = Inr cm"
  shows "cm_map cm = get (map_name mapping) ''''
    \<and> cm_table cm = get (table mapping) ''''
    \<and> ss_has_s3_file (cm_s3_comparison cm) = h
    \<and> cs_total_fields (cm_statistics cm) = length (cm_fields cm)
    \<and> cs_exists_in_s3_count (cm_statistics cm) = length (filter cf_exists_in_s3 (cm_fields cm))
    \<and> (\<exists>m. consolidate_fields (get_list (mfields mapping)) c m = Inr (cm_fields cm))"
  using assms by (auto simp: consolidate_mapping_def bind_eq_Inr Let_def)

lemma consolidate_mappings_all2:
  "consolidate_mappings h c sfc ms = Inr cms \<Longrightarrow>
     list_all2 (\<lambda>mapping cm. consolidate_mapping h c sfc mapping = Inr cm) ms cms"
proof (induction ms arbitrary: cms)
  case Nil
  then show ?case by simp
next
  case (Cons mapping ms)
  from Cons.prems obtain cm others where
    "consolidate_mapping h c sfc mapping = Inr cm"
    "consolidate_mappings h c sfc ms = Inr others" "cms = cm # others"
    by (auto simp: bind_eq_Inr)
  with Cons.IH show ?case by simp
qed

lemma consolidate_files_all2:
  "consolidate_files s3m cmpm sysm fs = Inr cfiles \<Longrightarrow>
     list_all2 (\<lambda>etl_file cfile.
         cfile_name cfile = get (name etl_file) ''''
       \<and> consolidate_mappings
           (file_bool (map_of s3m (get (name etl_file) '''')))
           (map_of cmpm (get (name etl_file) ''''))
           (case map_of sysm (get (name etl_file) '''') of None \<Rightarrow> [] | Some mapping_map \<Rightarrow> mapping_map)
           (get_list (mappings etl_file)) = Inr (cfile_mappings cfile)) fs cfiles"
proof (induction fs arbitrary: cfiles)
  case Nil
  then show ?case by simp
next
  case (Cons f fs)
  from Cons.prems obtain cms others where
    "consolidate_mappings
       (file_bool (map_of s3m (get (name f) '''')))
       (map_of cmpm (get (name f) ''''))
       (case map_of sysm (get (name f) '''') of None \<Rightarrow> [] | Some mapping_map \<Rightarrow> mapping_map)
       (get_list (mappings f)) = Inr cms"
    "consolidate_files s3m cmpm sysm fs = Inr others"
    "cfiles = \<lparr>cfile_name = get (name f) '''', cfile_mappings = cms\<rparr> # others"
    by (auto simp: bind_eq_Inr Let_def)
  with Cons.IH show ?case by simp
qed

lemma consolidate_Some:
  assumes "consolidate now (Some etl) s3_metadata s3_cmp sys_cmp = Inr (Some out)"
  shows "consolidate_files (s3_files_map_of s3_metadata) (s3_comparison_map s3_cmp)
           (system_comparison_map sys_cmp) (get_list (files etl)) = Inr (cons_files out)"
  using assms by (auto simp: consolidate_def bind_eq_Inr)

lemma shape_preserved:
  assumes "consolidate now (Some etl_metadata) s3_metadata s3_comparison_data
             system_comparison_data = Inr (Some out)"
  shows "list_all2 (\<lambda>etl_file cfile.
           cfile_name cfile = get (name etl_file) ''''
         \<and> list_all2 (\<lambda>mapping cm.
               cm_map cm = get (map_name mapping) ''''
             \<and> cm_table cm = get (table mapping) ''''
             \<and> list_all2 (\<lambda>field cf.
                   cf_from_santander cf = get (from_santander field) ''''
                 \<and> cf_laborit cf = get (laborit field) ''''
                 \<and> cf_type cf = get (field_type field) '''')
                 (get_list (mfields mapping)) (cm_fields cm))
             (get_list (mappings etl_file)) (cfile_mappings cfile))
         (get_list (files etl_metadata)) (cons_files out)"
proof -
  have fields: "list_all2 (\<lambda>field cf.
                   cf_from_santander cf = get (from_santander field) ''''
                 \<and> cf_laborit cf = get (laborit field) ''''
                 \<and> cf_type cf = get (field_type field) '''') fs cfs"
    if "consolidate_fields fs c m = Inr cfs" for fs c m cfs
    using consolidate_fields_all2 [OF that]
    by (rule list_all2_mono) simp
  have mapping: "cm_map cm = get (map_name mapping) ''''
             \<and> cm_table cm = get (table mapping) ''''
             \<and> list_all2 (\<lambda>field cf.
                   cf_from_santander cf = get (from_santander field) ''''
                 \<and> cf_laborit cf = get (laborit field) ''''
                 \<and> cf_type cf = get (field_type field) '''')
                 (get_list (mfields mapping)) (cm_fields cm)"
    if "consolidate_mapping h c sfc mapping = Inr cm" for h c sfc mapping cm
    using consolidate_mapping_Inr [OF that] fields by blast
  have mappings: "list_all2 (\<lambda>mapping cm.
               cm_map cm = get (map_name mapping) ''''
             \<and> cm_table cm = get (table mapping) ''''
             \<and> list_all2 (\<lambda>field cf.
                   cf_from_santander cf = get (from_santander field) ''''
                 \<and> cf_laborit cf = get (laborit field) ''''
                 \<and> cf_type cf = get (field_type field) '''')
                 (get_list (mfields mapping)) (cm_fields cm)) ms cms"
    if "consolidate_mappings h c sfc ms = Inr cms" for h c sfc ms cms
    using consolidate_mappings_all2 [OF that]
    by (rule list_all2_mono) (rule mapping)
  from consolidate_files_all2 [OF consolidate_Some [OF assms]] show ?thesis
    by (rule list_all2_mono) (use mappings in blast)
qed

subsection \<open>Completion\<close>

lemma fold_update_values:
  "(k, v) \<in> set (fold (\<lambda>x m. AList.update (key x) (val x) m) xs m0) \<Longrightarrow>
     (k, v) \<in> set m0 \<or> (\<exists>x \<in> set xs. k = key x \<and> v = val x)"
proof (induction xs arbitrary: m0)
  case Nil
  then show ?case by simp
next
  case (Cons x xs)
  from Cons.IH [of "AList.update (key x) (val x) m0"] Cons.prems
  have "(k, v) \<in> set (AList.update (key x) (val x) m0) \<or> (\<exists>x \<in> set xs. k = key x \<and> v = val x)"
    by simp
  with set_update_subset [of "key x" "val x" m0] show ?case
    by auto
qed

lemma mapping_map_of_values:
  "map_of (mapping_map_of mcs) k = Some c \<Longrightarrow> c \<in> set mcs"
  using fold_update_values [of k c mc_map "\<lambda>mc. mc" mcs "[]"]
  by (auto simp: mapping_map_of_def dest: map_of_SomeD)

lemma system_comparison_map_values:
  "map_of (system_comparison_map sys_cmp) k = Some mapping_map \<Longrightarrow>
     \<exists>fc \<in> set (case sys_cmp of None \<Rightarrow> [] | Some d \<Rightarrow> sc_files d).
        mapping_map = mapping_map_of (fc_mappings fc)"
  using fold_update_values [of k mapping_map fc_file_name "\<lambda>fc. mapping_map_of (fc_mappings fc)"
      "case sys_cmp of None \<Rightarrow> [] | Some d \<Rightarrow> sc_files d" "[]"]
  by (auto simp: system_comparison_map_def dest: map_of_SomeD)

lemma s3_comparison_map_values:
  "map_of (s3_comparison_map s3_cmp) k = Some c \<Longrightarrow>
     c \<in> set (case s3_cmp of None \<Rightarrow> [] | Some d \<Rightarrow> comparisons d)"
  using fold_update_values [of k c ci_file_name "\<lambda>item. item"
      "case s3_cmp of None \<Rightarrow> [] | Some d \<Rightarrow> comparisons d" "[]"]
  by (auto simp: s3_comparison_map_def dest: map_of_SomeD)

lemma check_in_both_returns:
  "list_all (\<lambda>field. be_from_santander field \<noteq> None) es \<Longrightarrow> \<exists>b. check_in_both es n = Inr b"
proof (induction es)
  case Nil
  show ?case by (rule exI [of _ False]) simp
next
  case (Cons e es)
  from Cons.prems obtain s where "be_from_santander e = Some s"
    by auto
  with Cons show ?case
    by auto
qed

lemma check_in_only_returns:
  "list_all (\<lambda>field. oe_from_santander field \<noteq> None) es \<Longrightarrow> \<exists>b. check_in_only es n = Inr b"
proof (induction es)
  case Nil
  show ?case by (rule exI [of _ False]) simp
next
  case (Cons e es)
  from Cons.prems obtain s where "oe_from_santander e = Some s"
    by auto
  with Cons show ?case
    by auto
qed

lemma check_field_in_s3_returns:
  assumes "\<forall>c. cmp = Some c \<longrightarrow> entries_not_null c"
  shows "\<exists>b. check_field_in_s3 (Some s) cmp = Inr b"
proof (cases cmp)
  case None
  then show ?thesis by (intro exI [of _ False]) simp
next
  case (Some c)
  with assms have ok: "entries_not_null c"
    by simp
  then obtain b where b: "check_in_both (ci_fields_in_both c) (strip (lower s)) = Inr b"
    using check_in_both_returns [of "ci_fields_in_both c" "strip (lower s)"]
    by (auto simp: entries_not_null_def)
  from ok obtain b' where "check_in_only (ci_fields_only_in_s3 c) (strip (lower s)) = Inr b'"
    using check_in_only_returns [of "ci_fields_only_in_s3 c" "strip (lower s)"]
    by (auto simp: entries_not_null_def)
  with b Some show ?thesis
    by auto
qed

lemma system_fields_map_of_returns:
  "list_all (\<lambda>sys_field. fu_from_santander sys_field \<noteq> None) fs \<Longrightarrow>
     \<exists>m'. system_fields_map_of fs m = Inr m'"
proof (induction fs arbitrary: m)
  case Nil
  show ?case by simp
next
  case (Cons f fs)
  from Cons.prems obtain s where "fu_from_santander f = Some s"
    by auto
  with Cons show ?case
    by simp
qed

lemma consolidate_fields_returns:
  assumes "list_all (\<lambda>field. from_santander field \<noteq> Null) fs"
    and "\<forall>c. cmp = Some c \<longrightarrow> entries_not_null c"
  shows "\<exists>cfs. consolidate_fields fs cmp m = Inr cfs"
  using assms(1)
proof (induction fs)
  case Nil
  show ?case by simp
next
  case (Cons f fs)
  from Cons.prems obtain s where s: "get (from_santander f) '''' = Some s"
    by (cases "from_santander f") auto
  from check_field_in_s3_returns [OF assms(2), of s] obtain b where
    "check_field_in_s3 (Some s) cmp = Inr b"
    by blast
  with Cons s show ?case
    by auto
qed

lemma consolidate_mapping_returns:
  assumes "list_all (\<lambda>field. from_santander field \<noteq> Null) (get_list (mfields mapping))"
    and "\<forall>c. cmp = Some c \<longrightarrow> entries_not_null c"
    and "\<forall>c. map_of sfc (get (map_name mapping) '''') = Some c \<longrightarrow>
           list_all (\<lambda>sys_field. fu_from_santander sys_field \<noteq> None) (mc_fields c)"
  shows "\<exists>cm. consolidate_mapping h cmp sfc mapping = Inr cm"
proof -
  let ?fs = "case map_of sfc (get (map_name mapping) '''') of None \<Rightarrow> [] | Some c \<Rightarrow> mc_fields c"
  have "list_all (\<lambda>sys_field. fu_from_santander sys_field \<noteq> None) ?fs"
    using assms(3) by (cases "map_of sfc (get (map_name mapping) '''')") simp_all
  from system_fields_map_of_returns [OF this, of "[]"] obtain m where
    m: "system_fields_map_of ?fs [] = Inr m"
    by blast
  from consolidate_fields_returns [OF assms(1,2), of m] obtain cfs where
    "consolidate_fields (get_list (mfields mapping)) cmp m = Inr cfs"
    by blast
  with m show ?thesis
    by (simp add: consolidate_mapping_def Let_def)
qed

lemma consolidate_mappings_returns:
  assumes "list_all (\<lambda>mapping.
       list_all (\<lambda>field. from_santander field \<noteq> Null) (get_list (mfields mapping))) ms"
    and "\<forall>c. cmp = Some c \<longrightarrow> entries_not_null c"
    and "\<forall>k c. map_of sfc k = Some c \<longrightarrow>
           list_all (\<lambda>sys_field. fu_from_santander sys_field \<noteq> None) (mc_fields c)"
  shows "\<exists>cms. consolidate_mappings h cmp sfc ms = Inr cms"
  using assms(1)
proof (induction ms)
  case Nil
  show ?case by simp
next
  case (Cons mapping ms)
  from Cons.prems have
    "list_all (\<lambda>field. from_santander field \<noteq> Null) (get_list (mfields mapping))"
    by simp
  moreover from assms(3) have
    "\<forall>c. map_of sfc (get (map_name mapping) '''') = Some c \<longrightarrow>
       list_all (\<lambda>sys_field. fu_from_santander sys_field \<noteq> None) (mc_fields c)"
    by blast
  ultimately obtain cm where "consolidate_mapping h cmp sfc mapping = Inr cm"
    using consolidate_mapping_returns [of mapping cmp sfc h] assms(2) by blast
  with Cons show ?case
    by auto
qed

lemma consolidate_files_returns:
  assumes "list_all (\<lambda>etl_file.
       list_all (\<lambda>mapping.
         list_all (\<lambda>field. from_santander field \<noteq> Null) (get_list (mfields mapping)))
         (get_list (mappings etl_file))) fs"
    and "comparison_names_not_null s3_cmp"
    and "usage_names_not_null sys_cmp"
  shows "\<exists>cfiles. consolidate_files s3m (s3_comparison_map s3_cmp)
           (system_comparison_map sys_cmp) fs = Inr cfiles"
  using assms(1)
proof (induction fs)
  case Nil
  show ?case by simp
next
  case (Cons f fs)
  let ?cmp = "map_of (s3_comparison_map s3_cmp) (get (name f) '''')"
  let ?sfc = "case map_of (system_comparison_map sys_cmp) (get (name f) '''') of
      None \<Rightarrow> [] | Some mapping_map \<Rightarrow> mapping_map"
  have cmp: "\<forall>c. ?cmp = Some c \<longrightarrow> entries_not_null c"
    using s3_comparison_map_values [of s3_cmp "get (name f) ''''"] assms(2)
    by (auto simp: comparison_names_not_null_def list_all_iff)
  have "list_all (\<lambda>sys_field. fu_from_santander sys_field \<noteq> None) (mc_fields c)"
    if "map_of ?sfc k = Some c" for k c
  proof (cases "map_of (system_comparison_map sys_cmp) (get (name f) '''')")
    case None
    with that show ?thesis by simp
  next
    case (Some mapping_map)
    from system_comparison_map_values [OF Some] obtain fc where
      fc: "fc \<in> set (case sys_cmp of None \<Rightarrow> [] | Some d \<Rightarrow> sc_files d)"
      and mm: "mapping_map = mapping_map_of (fc_mappings fc)"
      by blast
    from that Some mm have "c \<in> set (fc_mappings fc)"
      by (simp add: mapping_map_of_values)
    with fc assms(3) show ?thesis
      by (auto simp: usage_names_not_null_def list_all_iff)
  qed
  then have ok: "\<forall>k c. map_of ?sfc k = Some c \<longrightarrow>
      list_all (\<lambda>sys_field. fu_from_santander sys_field \<noteq> None) (mc_fields c)"
    by blast
  from Cons.prems have "list_all (\<lambda>mapping.
       list_all (\<lambda>field. from_santander field \<noteq> Null) (get_list (mfields mapping)))
       (get_list (mappings f))"
    by simp
  from consolidate_mappings_returns
    [of "get_list (mappings f)" ?cmp ?sfc "file_bool (map_of s3m (get (name f) ''''))"] this cmp ok
  obtain cms where
    "consolidate_mappings (file_bool (map_of s3m (get (name f) ''''))) ?cmp ?sfc
       (get_list (mappings f)) = Inr cms"
    by blast
  with Cons show ?case
    by (auto simp: Let_def)
qed

lemma consolidate_returns:
  assumes "names_not_null etl" and "comparison_names_not_null s3_cmp"
    and "usage_names_not_null sys_cmp"
  shows "\<exists>out. consolidate now (Some etl) s3_metadata s3_cmp sys_cmp = Inr (Some out)"
proof -
  from assms(1) have "list_all (\<lambda>etl_file.
       list_all (\<lambda>mapping.
         list_all (\<lambda>field. from_santander field \<noteq> Null) (get_list (mfields mapping)))
         (get_list (mappings etl_file))) (get_list (files etl))"
    by (simp add: names_not_null_def)
  from consolidate_files_returns [OF this assms(2,3), of "s3_files_map_of s3_metadata"]
  show ?thesis
    by (auto simp: consolidate_def)
qed

text \<open>
  C4. \<^verbatim>\<open>consolidate\<close> produces a document from every ETL document in which (as in the
  two comparisons) no \<^verbatim>\<open>from_santander\<close> is \<^verbatim>\<open>null\<close>; and whenever it produces one, the
  files of the output are the files of the input in the same order and with the same
  names, the mappings of each file are those of the input file in the same order with
  the same \<^verbatim>\<open>map\<close> and \<^verbatim>\<open>table\<close>, and the fields of each mapping are those of the input
  mapping in the same order, each with the \<^verbatim>\<open>from_santander\<close>, \<^verbatim>\<open>laborit\<close> and \<^verbatim>\<open>type\<close>
  of the input field (read with \<^verbatim>\<open>get\<close>, so an absent key reads as \<^verbatim>\<open>''\<close>).
\<close>

theorem consolidation_conservation:
  "(names_not_null etl_metadata \<and> comparison_names_not_null s3_comparison_data
      \<and> usage_names_not_null system_comparison_data \<longrightarrow>
      (\<exists>out. consolidate now (Some etl_metadata) s3_metadata s3_comparison_data
                system_comparison_data = Inr (Some out)))
   \<and> (\<forall>out. consolidate now (Some etl_metadata) s3_metadata s3_comparison_data
               system_comparison_data = Inr (Some out) \<longrightarrow>
         list_all2 (\<lambda>etl_file cfile.
             cfile_name cfile = get (name etl_file) ''''
           \<and> list_all2 (\<lambda>mapping cm.
                 cm_map cm = get (map_name mapping) ''''
               \<and> cm_table cm = get (table mapping) ''''
               \<and> list_all2 (\<lambda>field cf.
                     cf_from_santander cf = get (from_santander field) ''''
                   \<and> cf_laborit cf = get (laborit field) ''''
                   \<and> cf_type cf = get (field_type field) '''')
                   (get_list (mfields mapping)) (cm_fields cm))
               (get_list (mappings etl_file)) (cfile_mappings cfile))
           (get_list (files etl_metadata)) (cons_files out))"
  using consolidate_returns [of etl_metadata s3_comparison_data system_comparison_data now s3_metadata]
    shape_preserved [of now etl_metadata s3_metadata s3_comparison_data system_comparison_data]
  by blast

subsection \<open>Without an S3 comparison\<close>

lemma consolidate_mapping_None:
  assumes "consolidate_mapping h None sfc mapping = Inr cm"
  shows "list_all (\<lambda>cf. \<not> cf_exists_in_s3 cf) (cm_fields cm)
    \<and> cs_exists_in_s3_count (cm_statistics cm) = 0
    \<and> ss_fields_in_both_count (cm_s3_comparison cm) = 0
    \<and> ss_fields_only_in_s3_count (cm_s3_comparison cm) = 0
    \<and> ss_fields_only_in_etl_count (cm_s3_comparison cm) = 0
    \<and> ss_has_s3_file (cm_s3_comparison cm) = h"
proof -
  from consolidate_mapping_Inr [OF assms] obtain m where
    fields: "consolidate_fields (get_list (mfields mapping)) None m = Inr (cm_fields cm)"
    and count: "cs_exists_in_s3_count (cm_statistics cm) = length (filter cf_exists_in_s3 (cm_fields cm))"
    and h: "ss_has_s3_file (cm_s3_comparison cm) = h"
    by blast
  from consolidate_fields_all2 [OF fields]
  have none: "list_all (\<lambda>cf. \<not> cf_exists_in_s3 cf) (cm_fields cm)"
    by (auto simp: list_all2_conv_all_nth list_all_length)
  then have "filter cf_exists_in_s3 (cm_fields cm) = []"
    by (simp add: list_all_iff filter_empty_conv)
  with none count h assms show ?thesis
    by (auto simp: consolidate_mapping_def bind_eq_Inr Let_def)
qed

lemma s3_files_map_of_empty:
  "(case s3_metadata of None \<Rightarrow> [] | Some d \<Rightarrow> get_list (files d)) = [] \<Longrightarrow>
     s3_files_map_of s3_metadata = []"
  by (simp add: s3_files_map_of_def)

text \<open>
  C8, as the code has it. With an empty or missing S3 comparison: the consolidation
  completes without raising when no \<^verbatim>\<open>from_santander\<close> of the ETL document or of the
  usage comparison is \<^verbatim>\<open>null\<close>; every field of its output has \<^verbatim>\<open>exists_in_s3 = false\<close>
  and the three counts copied from the comparison are zero; \<^verbatim>\<open>has_s3_file\<close> does not
  come from the comparison but from the S3 metadata document (lines 130 and 203): it
  tells whether that document has a file of the ETL file's name, and is false for every
  mapping when that document is empty or missing too.
\<close>

theorem absence_safety:
  assumes "(case s3_comparison_data of None \<Rightarrow> [] | Some d \<Rightarrow> comparisons d) = []"
  shows "(names_not_null etl_metadata \<and> usage_names_not_null system_comparison_data \<longrightarrow>
            (\<exists>out. consolidate now (Some etl_metadata) s3_metadata s3_comparison_data
                      system_comparison_data = Inr (Some out)))
    \<and> (\<forall>out. consolidate now (Some etl_metadata) s3_metadata s3_comparison_data
                system_comparison_data = Inr (Some out) \<longrightarrow>
          list_all2 (\<lambda>etl_file cfile.
            list_all (\<lambda>cm.
                list_all (\<lambda>cf. \<not> cf_exists_in_s3 cf) (cm_fields cm)
              \<and> cs_exists_in_s3_count (cm_statistics cm) = 0
              \<and> ss_fields_in_both_count (cm_s3_comparison cm) = 0
              \<and> ss_fields_only_in_s3_count (cm_s3_comparison cm) = 0
              \<and> ss_fields_only_in_etl_count (cm_s3_comparison cm) = 0
              \<and> ss_has_s3_file (cm_s3_comparison cm)
                  = file_bool (map_of (s3_files_map_of s3_metadata) (get (name etl_file) ''''))
              \<and> ((case s3_metadata of None \<Rightarrow> [] | Some d \<Rightarrow> get_list (files d)) = [] \<longrightarrow>
                    \<not> ss_has_s3_file (cm_s3_comparison cm)))
              (cfile_mappings cfile))
            (get_list (files etl_metadata)) (cons_files out))"
proof (intro conjI impI allI)
  have empty: "s3_comparison_map s3_comparison_data = []"
    using assms by (simp add: s3_comparison_map_def)
  {
    assume "names_not_null etl_metadata \<and> usage_names_not_null system_comparison_data"
    moreover have "comparison_names_not_null s3_comparison_data"
      using assms by (simp add: comparison_names_not_null_def)
    ultimately show "\<exists>out. consolidate now (Some etl_metadata) s3_metadata s3_comparison_data
                      system_comparison_data = Inr (Some out)"
      by (intro consolidate_returns) simp_all
  }
  {
    fix out
    assume run: "consolidate now (Some etl_metadata) s3_metadata s3_comparison_data
                system_comparison_data = Inr (Some out)"
    let ?s3m = "s3_files_map_of s3_metadata"
    have mappings: "list_all (\<lambda>cm.
                list_all (\<lambda>cf. \<not> cf_exists_in_s3 cf) (cm_fields cm)
              \<and> cs_exists_in_s3_count (cm_statistics cm) = 0
              \<and> ss_fields_in_both_count (cm_s3_comparison cm) = 0
              \<and> ss_fields_only_in_s3_count (cm_s3_comparison cm) = 0
              \<and> ss_fields_only_in_etl_count (cm_s3_comparison cm) = 0
              \<and> ss_has_s3_file (cm_s3_comparison cm) = file_bool (map_of ?s3m k)
              \<and> ((case s3_metadata of None \<Rightarrow> [] | Some d \<Rightarrow> get_list (files d)) = [] \<longrightarrow>
                    \<not> ss_has_s3_file (cm_s3_comparison cm))) cms"
      if "consolidate_mappings (file_bool (map_of ?s3m k)) None sfc ms = Inr cms" for k sfc ms cms
    proof -
      have "list_all (\<lambda>cm. \<exists>mapping. consolidate_mapping (file_bool (map_of ?s3m k)) None sfc mapping = Inr cm) cms"
        using consolidate_mappings_all2 [OF that]
        by (auto simp: list_all_length list_all2_conv_all_nth)
      then show ?thesis
        using consolidate_mapping_None s3_files_map_of_empty [of s3_metadata]
        by (fastforce simp: list_all_iff)
    qed
    from consolidate_files_all2 [OF consolidate_Some [OF run]]
    show "list_all2 (\<lambda>etl_file cfile.
            list_all (\<lambda>cm.
                list_all (\<lambda>cf. \<not> cf_exists_in_s3 cf) (cm_fields cm)
              \<and> cs_exists_in_s3_count (cm_statistics cm) = 0
              \<and> ss_fields_in_both_count (cm_s3_comparison cm) = 0
              \<and> ss_fields_only_in_s3_count (cm_s3_comparison cm) = 0
              \<and> ss_fields_only_in_etl_count (cm_s3_comparison cm) = 0
              \<and> ss_has_s3_file (cm_s3_comparison cm)
                  = file_bool (map_of (s3_files_map_of s3_metadata) (get (name etl_file) ''''))
              \<and> ((case s3_metadata of None \<Rightarrow> [] | Some d \<Rightarrow> get_list (files d)) = [] \<longrightarrow>
                    \<not> ss_has_s3_file (cm_s3_comparison cm)))
              (cfile_mappings cfile))
            (get_list (files etl_metadata)) (cons_files out)"
      by (rule list_all2_mono) (use mappings empty in auto)
  }
qed

lemma example_consolidate_run:
  "consolidate ''now'' (Some example_etl) (Some example_s3) (Some example_comparison)
     (Some example_usage) = Inr (Some example_consolidated)"
  by code_simp

theorem consolidation_conservation_witness:
  "names_not_null example_etl
   \<and> comparison_names_not_null (Some example_comparison)
   \<and> usage_names_not_null (Some example_usage)
   \<and> consolidate ''now'' (Some example_etl) (Some example_s3) (Some example_comparison)
       (Some example_usage) = Inr (Some example_consolidated)
   \<and> list_all2 (\<lambda>etl_file cfile.
           cfile_name cfile = get (name etl_file) ''''
         \<and> list_all2 (\<lambda>mapping cm.
               cm_map cm = get (map_name mapping) ''''
             \<and> cm_table cm = get (table mapping) ''''
             \<and> list_all2 (\<lambda>field cf.
                   cf_from_santander cf = get (from_santander field) ''''
                 \<and> cf_laborit cf = get (laborit field) ''''
                 \<and> cf_type cf = get (field_type field) '''')
                 (get_list (mfields mapping)) (cm_fields cm))
             (get_list (mappings etl_file)) (cfile_mappings cfile))
         (get_list (files example_etl)) (cons_files example_consolidated)"
proof -
  have ok: "names_not_null example_etl" "comparison_names_not_null (Some example_comparison)"
    "usage_names_not_null (Some example_usage)"
    by code_simp+
  from consolidation_conservation
    [of example_etl "Some example_comparison" "Some example_usage" "''now''" "Some example_s3"]
    example_consolidate_run ok
  show ?thesis
    by simp
qed

text \<open>
  C8 as stated fails: without any S3 comparison, \<^verbatim>\<open>has_s3_file\<close> is true for the mapping
  of a file that the S3 metadata document has; and without any other document the
  consolidation of an ETL document with a \<^verbatim>\<open>null\<close> \<^verbatim>\<open>from_santander\<close> raises at line 171.
\<close>

theorem absence_safety_counterexample:
  "consolidate ''now'' (Some small_etl) (Some small_s3) None None =
     Inr (Some
       \<lparr>cons_generated_at = ''now'',
        cons_files =
          [\<lparr>cfile_name = Some ''clients'',
            cfile_mappings =
              [\<lparr>cm_map = Some ''map_clients'', cm_table = Some ''tb_clients'',
                cm_fields =
                  [\<lparr>cf_from_santander = Some ''Client_ID'', cf_laborit = Some ''client_id'',
                    cf_type = Some ''int'', cf_exists_in_s3 = False,
                    cf_is_used_in_system = False\<rparr>],
                cm_statistics =
                  \<lparr>cs_total_fields = 1, cs_exists_in_s3_count = 0,
                   cs_used_in_system_count = 0, cs_unused_in_system_count = 1\<rparr>,
                cm_s3_comparison =
                  \<lparr>ss_has_s3_file = True, ss_fields_in_both_count = 0,
                   ss_fields_only_in_s3_count = 0, ss_fields_only_in_etl_count = 0\<rparr>,
                cm_system_comparison =
                  \<lparr>sy_has_system_data = False, sy_system_unused_columns_count = 0\<rparr>\<rparr>]\<rparr>]\<rparr>)
   \<and> consolidate ''now'' (Some null_etl) None None None = Inl AttributeError"
  by code_simp

theorem absence_safety_witness:
  "(case None :: comparison option of None \<Rightarrow> [] | Some d \<Rightarrow> comparisons d) = []
   \<and> names_not_null example_etl
   \<and> usage_names_not_null (Some example_usage)
   \<and> (\<exists>out. consolidate ''now'' (Some example_etl) None None (Some example_usage) = Inr (Some out)
        \<and> list_all2 (\<lambda>etl_file cfile.
            list_all (\<lambda>cm.
                list_all (\<lambda>cf. \<not> cf_exists_in_s3 cf) (cm_fields cm)
              \<and> \<not> ss_has_s3_file (cm_s3_comparison cm))
              (cfile_mappings cfile))
            (get_list (files example_etl)) (cons_files out))"
proof -
  have hyp: "(case None :: comparison option of None \<Rightarrow> [] | Some d \<Rightarrow> comparisons d) = []"
    by simp
  have ok: "names_not_null example_etl" "usage_names_not_null (Some example_usage)"
    by code_simp+
  note inst = absence_safety [OF hyp, of example_etl "Some example_usage" "''now''" None]
  from inst ok obtain out where
    run: "consolidate ''now'' (Some example_etl) None None (Some example_usage) = Inr (Some out)"
    by blast
  with inst have "list_all2 (\<lambda>etl_file cfile.
            list_all (\<lambda>cm.
                list_all (\<lambda>cf. \<not> cf_exists_in_s3 cf) (cm_fields cm)
              \<and> \<not> ss_has_s3_file (cm_s3_comparison cm))
              (cfile_mappings cfile))
            (get_list (files example_etl)) (cons_files out)"
    by (auto simp: list_all_iff elim!: list_all2_mono)
  with hyp ok run show ?thesis
    by blast
qed

end
